theory Spec2Isabelle
  imports Complex_Main
begin

section \<open>Data model\<close>

text \<open>
  The interfaces of the vendor types and the class \<open>State\<close> of \<open>platformAccessory.ts\<close>.
  A JavaScript number is a \<open>real\<close>: the adapters only copy numbers and compare them with
  zero. An optional field (\<open>?\<close>) is an \<open>option\<close>, \<open>None\<close> standing for both
  \<open>undefined\<close> and \<open>null\<close>, which the source never tells apart (it tests with the loose
  \<open>!= null\<close> and \<open>!= undefined\<close>). Field names are the source's, with a suffix where two
  interfaces share a name or the name is taken in HOL (\<open>id\<close>, \<open>identifier\<close>, \<open>name\<close>, \<open>value\<close>, \<open>onOff\<close>).
\<close>

record SinopeDevice =
  device_id :: nat
  device_identifier :: string
  device_name :: string
  parentDevice_id :: "nat option"
  sku :: string
  vendor :: string

text \<open>
  \<open>RootTemperature.value\<close> is declared a number, yet \<open>updateState\<close> tests it against
  \<open>null\<close>; the model keeps the test, so the field is optional here.
\<close>

record RootTemperature =
  rt_value :: "real option"

text \<open>\<open>errorCodeSet1\<close> and \<open>drStatus\<close> (of type \<open>any\<close>) are never read and are left out.\<close>

record SinopeDeviceState =
  roomTemperature :: "RootTemperature option"
  roomSetpoint :: "real option"
  outputPercentDisplay :: "real option"
  setpointMode :: "string option"
  onOff_vendor :: "string option"
  wattageInstant :: "real option"

record SinopeDeviceStateRequest =
  req_roomSetpoint :: "real option"
  req_setpointMode :: "string option"
  req_onOff :: "string option"

text \<open>
  The class \<open>State\<close>. Its \<open>lock\<close> is not a field of the record: a caller that finds the
  lock free runs at once, and the model of concurrent callers keeps the lock's holder
  and queue beside the state. The lock's timeout is \<open>lock_timeout\<close> (milliseconds).
\<close>

record State =
  currentTemperature :: "real option"
  targetTemperature :: "real option"
  currentHeatingCoolingState :: "real option"
  targetHeatingCoolingState :: "real option"
  onOff :: "bool option"
  validUntil :: nat

definition new_State :: State where
  "new_State =
     \<lparr>currentTemperature = Some 0, targetTemperature = Some 0,
      currentHeatingCoolingState = Some 0, targetHeatingCoolingState = Some 0,
      onOff = None, validUntil = 0\<rparr>"

definition lock_timeout :: nat where
  "lock_timeout = 5000"

section \<open>The outside world\<close>

text \<open>
  What the adapters do to their collaborators is recorded in a \<open>World\<close>: the clock
  (\<open>Date.getTime()\<close>, milliseconds since the epoch, hence a \<open>nat\<close>), the calls that reached
  the vendor client, the lines sent to the platform's log (level and format string), and
  the values pushed to the hub with \<open>service.updateCharacteristic\<close>.
\<close>

datatype Error = Error string

datatype LogEntry = LogDebug string | LogError string

datatype Characteristic =
  CurrentTemperature | TargetTemperature | CurrentHeatingCoolingState
  | TargetHeatingCoolingState | OutletInUse

text \<open>
  The values the hub sends and receives for the characteristics of these two adapters
  are numbers and booleans.
\<close>

datatype CharacteristicValue = CVNumber real | CVBoolean bool

record World =
  clock :: nat
  fetchDevice_calls :: "nat list"
  updateDevice_calls :: "(nat \<times> SinopeDeviceStateRequest) list"
  log_lines :: "LogEntry list"
  characteristic_updates :: "(Characteristic \<times> CharacteristicValue option) list"

text \<open>
  The vendor client \<open>platform.neviweb\<close> is not part of the adapters: it is an environment
  that decides, for the n-th call, how long the call takes (milliseconds) and whether the
  promise is rejected (\<open>Inl\<close>) or fulfilled (\<open>Inr\<close>). Every call is taken to settle.
\<close>

record Neviweb =
  fetchDevice :: "nat \<Rightarrow> nat \<times> (Error + SinopeDeviceState)"
  updateDevice :: "nat \<Rightarrow> SinopeDeviceStateRequest \<Rightarrow> nat \<times> (Error + unit)"

text \<open>A handler answers the hub through its callback: \<open>callback(err, value)\<close>.\<close>

datatype callback = Callback "Error option" "CharacteristicValue option"

definition log_debug :: "World \<Rightarrow> string \<Rightarrow> World" where
  "log_debug w msg = w\<lparr>log_lines := log_lines w @ [LogDebug msg]\<rparr>"

definition log_error :: "World \<Rightarrow> string \<Rightarrow> World" where
  "log_error w msg = w\<lparr>log_lines := log_lines w @ [LogError msg]\<rparr>"

text \<open>Time that passes: \<open>ms\<close> milliseconds on the clock.\<close>

definition elapse :: "nat \<Rightarrow> World \<Rightarrow> World" where
  "elapse ms w = w\<lparr>clock := clock w + ms\<rparr>"

definition updateCharacteristic ::
  "World \<Rightarrow> Characteristic \<Rightarrow> CharacteristicValue option \<Rightarrow> World" where
  "updateCharacteristic w c v =
     w\<lparr>characteristic_updates := characteristic_updates w @ [(c, v)]\<rparr>"

definition number_value :: "real option \<Rightarrow> CharacteristicValue option" where
  "number_value x = map_option CVNumber x"

definition boolean_value :: "bool option \<Rightarrow> CharacteristicValue option" where
  "boolean_value b = map_option CVBoolean b"

text \<open>\<open>Number(value)\<close> and the truthiness of \<open>value\<close> in \<open>value ? "on" : "off"\<close>.\<close>

fun Number :: "CharacteristicValue \<Rightarrow> real" where
  "Number (CVNumber x) = x"
| "Number (CVBoolean b) = (if b then 1 else 0)"

fun truthy :: "CharacteristicValue \<Rightarrow> bool" where
  "truthy (CVNumber x) = (x \<noteq> 0)"
| "truthy (CVBoolean b) = b"

section \<open>The cache: validity and refresh\<close>

text \<open>\<open>Math.ceil(getTime() / 1000)\<close>, on a clock in whole milliseconds.\<close>

definition currentEpoch :: "World \<Rightarrow> nat" where
  "currentEpoch w = (clock w + 999) div 1000"

text \<open>
  \<open>timestamp > this.currentEpoch() && timestamp !== undefined\<close>; the timestamp is always a
  number, so the second conjunct holds.
\<close>

definition isValid :: "World \<Rightarrow> nat \<Rightarrow> bool" where
  "isValid w timestamp = (timestamp > currentEpoch w)"

text \<open>
  The calls \<open>neviweb.fetchDevice\<close> and \<open>neviweb.updateDevice\<close> as the adapter sees them: the
  call is recorded, the clock moves by the time the call took, and the outcome comes back.
\<close>

definition call_fetchDevice ::
  "Neviweb \<Rightarrow> SinopeDevice \<Rightarrow> World \<Rightarrow> (Error + SinopeDeviceState) \<times> World" where
  "call_fetchDevice nv d w =
     (case fetchDevice nv (length (fetchDevice_calls w)) of
        (latency, outcome) \<Rightarrow>
          (outcome,
           w\<lparr>clock := clock w + latency,
             fetchDevice_calls := fetchDevice_calls w @ [device_id d]\<rparr>))"

definition call_updateDevice ::
  "Neviweb \<Rightarrow> SinopeDevice \<Rightarrow> SinopeDeviceStateRequest \<Rightarrow> World \<Rightarrow> (Error + unit) \<times> World" where
  "call_updateDevice nv d body w =
     (case updateDevice nv (length (updateDevice_calls w)) body of
        (latency, outcome) \<Rightarrow>
          (outcome,
           w\<lparr>clock := clock w + latency,
             updateDevice_calls := updateDevice_calls w @ [(device_id d, body)]\<rparr>))"

subsection \<open>Thermostat: \<open>SinopeAccessory.updateState\<close>\<close>

text \<open>
  The branch of \<open>updateState\<close> taken when the snapshot has a room temperature (lines
  202 to 236): the four cached fields are assigned in the source's order, each followed
  by its push to the hub. The target temperature is assigned from \<open>roomSetpoint\<close> as it
  is; only its push is guarded.
\<close>

definition currentHeatingCoolingState_of :: "SinopeDeviceState \<Rightarrow> real" where
  "currentHeatingCoolingState_of deviceState =
     (case outputPercentDisplay deviceState of
        Some p \<Rightarrow> if p > 0 then 1 else 0
      | None \<Rightarrow> 0)"

definition targetHeatingCoolingState_of :: "SinopeDeviceState \<Rightarrow> real" where
  "targetHeatingCoolingState_of deviceState =
     (if setpointMode deviceState = Some ''auto'' then 3
      else if setpointMode deviceState = Some ''off'' then 0
      else 1)"

definition updateState_thermostat ::
  "real \<Rightarrow> SinopeDeviceState \<Rightarrow> World \<times> State \<Rightarrow> World \<times> State" where
  "updateState_thermostat temperature deviceState ws =
     (case ws of (w, s) \<Rightarrow>
        let s1 = s\<lparr>currentTemperature := Some temperature\<rparr>;
            w1 = updateCharacteristic w CurrentTemperature (number_value (currentTemperature s1));
            s2 = s1\<lparr>targetTemperature := roomSetpoint deviceState\<rparr>;
            w2 = (if targetTemperature s2 \<noteq> None
                  then updateCharacteristic w1 TargetTemperature (number_value (targetTemperature s2))
                  else w1);
            s3 = s2\<lparr>currentHeatingCoolingState := Some (currentHeatingCoolingState_of deviceState)\<rparr>;
            w3 = updateCharacteristic w2 CurrentHeatingCoolingState
                   (number_value (currentHeatingCoolingState s3));
            s4 = s3\<lparr>targetHeatingCoolingState := Some (targetHeatingCoolingState_of deviceState)\<rparr>;
            w4 = updateCharacteristic w3 TargetHeatingCoolingState
                   (number_value (targetHeatingCoolingState s4))
        in (w4, s4))"

text \<open>
  The on/off assignment (lines 237 to 245, and 347 to 355 of the switch):
  \<open>if (deviceState.onOff != undefined) { state.onOff = deviceState.onOff == "on" ... }\<close>.
\<close>

definition updateState_onOff :: "SinopeDeviceState \<Rightarrow> World \<times> State \<Rightarrow> World \<times> State" where
  "updateState_onOff deviceState ws =
     (case ws of (w, s) \<Rightarrow>
        (case onOff_vendor deviceState of
           Some v \<Rightarrow>
             let s1 = s\<lparr>onOff := Some (v = ''on'')\<rparr>
             in (if onOff s1 \<noteq> None
                 then updateCharacteristic w OutletInUse (boolean_value (onOff s1))
                 else w, s1)
         | None \<Rightarrow> (w, s)))"

text \<open>
  The body of the \<open>try\<close> once the fetch has been fulfilled with \<open>deviceState\<close> (lines 197
  to 245). It runs without suspension: there is no \<open>await\<close> in it.
\<close>

definition updateState_fetched :: "SinopeDeviceState \<Rightarrow> World \<times> State \<Rightarrow> World \<times> State" where
  "updateState_fetched deviceState ws =
     (case ws of (w, s) \<Rightarrow>
        let w1 = log_debug w ''fetched update for device %s from Neviweb API: %s'';
            s1 = s\<lparr>validUntil := currentEpoch w1 + 10\<rparr>
        in (case roomTemperature deviceState of
              Some rt \<Rightarrow>
                (case rt_value rt of
                   Some temperature \<Rightarrow> updateState_thermostat temperature deviceState (w1, s1)
                 | None \<Rightarrow> updateState_onOff deviceState (w1, s1))
            | None \<Rightarrow> updateState_onOff deviceState (w1, s1)))"

text \<open>The \<open>catch\<close> of \<open>updateState\<close>: the rejection is logged and nothing else happens.\<close>

definition updateState_failed :: "World \<times> State \<Rightarrow> World \<times> State" where
  "updateState_failed ws =
     (case ws of (w, s) \<Rightarrow>
        (log_error w ''could not fetch update for device %s from Neviweb API'', s))"

definition updateState_settled ::
  "Error + SinopeDeviceState \<Rightarrow> World \<times> State \<Rightarrow> World \<times> State" where
  "updateState_settled outcome ws =
     (case outcome of
        Inr deviceState \<Rightarrow> updateState_fetched deviceState ws
      | Inl e \<Rightarrow> updateState_failed ws)"

definition updateState :: "Neviweb \<Rightarrow> SinopeDevice \<Rightarrow> World \<times> State \<Rightarrow> World \<times> State" where
  "updateState nv d ws =
     (case ws of (w, s) \<Rightarrow>
        (case call_fetchDevice nv d w of
           (outcome, w1) \<Rightarrow> updateState_settled outcome (w1, s)))"

text \<open>
  The function that \<open>getState\<close> runs under the lock (lines 183 to 189); the state it
  returns is the second component. A caller that finds the lock free runs it at once,
  which is \<open>getState\<close> as the handlers below call it. Callers that find the lock held
  are the subject of the last section of the definitions.
\<close>

definition getState :: "Neviweb \<Rightarrow> SinopeDevice \<Rightarrow> World \<times> State \<Rightarrow> World \<times> State" where
  "getState nv d ws =
     (case ws of (w, s) \<Rightarrow>
        if \<not> isValid w (validUntil s)
        then updateState nv d (log_debug w ''updating state for accessory %s'', s)
        else (log_debug w ''state is still valid for accessory %s'', s))"

subsection \<open>Switch: \<open>SinopeSwitchAccessory.updateState\<close> and \<open>getState\<close>\<close>

text \<open>The switch's \<open>try\<close> body (lines 343 to 355) has the on/off assignment only.\<close>

definition switch_updateState_fetched ::
  "SinopeDeviceState \<Rightarrow> World \<times> State \<Rightarrow> World \<times> State" where
  "switch_updateState_fetched deviceState ws =
     (case ws of (w, s) \<Rightarrow>
        let w1 = log_debug w ''fetched update for device %s from Neviweb API: %s'';
            s1 = s\<lparr>validUntil := currentEpoch w1 + 10\<rparr>
        in updateState_onOff deviceState (w1, s1))"

definition switch_updateState_settled ::
  "Error + SinopeDeviceState \<Rightarrow> World \<times> State \<Rightarrow> World \<times> State" where
  "switch_updateState_settled outcome ws =
     (case outcome of
        Inr deviceState \<Rightarrow> switch_updateState_fetched deviceState ws
      | Inl e \<Rightarrow> updateState_failed ws)"

definition switch_updateState ::
  "Neviweb \<Rightarrow> SinopeDevice \<Rightarrow> World \<times> State \<Rightarrow> World \<times> State" where
  "switch_updateState nv d ws =
     (case ws of (w, s) \<Rightarrow>
        (case call_fetchDevice nv d w of
           (outcome, w1) \<Rightarrow> switch_updateState_settled outcome (w1, s)))"

definition switch_getState ::
  "Neviweb \<Rightarrow> SinopeDevice \<Rightarrow> World \<times> State \<Rightarrow> World \<times> State" where
  "switch_getState nv d ws =
     (case ws of (w, s) \<Rightarrow>
        if \<not> isValid w (validUntil s)
        then switch_updateState nv d (log_debug w ''updating state for accessory %s'', s)
        else (log_debug w ''state is still valid for accessory %s'', s))"

section \<open>The lock, for one caller\<close>

text \<open>
  \<open>getState()\<close> is \<open>state.lock.acquire(STATE_KEY, fn)\<close> on a lock made with
  \<open>timeout: 5000\<close>. For one caller the lock does one of two things: it runs \<open>fn\<close> (at
  once when it is free, or when the lock is passed to the caller) and the promise is
  fulfilled with what \<open>fn\<close> returns; or the caller has been queued for the timeout, the
  promise is rejected with the lock's error and \<open>fn\<close> never runs. Which of the two
  happens depends on the other callers, so it is given from outside, as the outcome of a
  vendor call is. The world and the state are those that the lock's answer finds. The
  last section of the definitions gives the lock with all its callers and its timer.
\<close>

datatype settlement = Fulfilled State | Rejected Error

datatype lock_answer = Runs | TimesOut

definition lock_error :: Error where
  "lock_error = Error ''async-lock timed out in queue state''"

fun lock_acquire ::
  "lock_answer \<Rightarrow> (World \<times> State \<Rightarrow> World \<times> State) \<Rightarrow> World \<times> State
     \<Rightarrow> settlement \<times> World \<times> State" where
  "lock_acquire Runs fn ws = (case fn ws of (w1, s1) \<Rightarrow> (Fulfilled s1, w1, s1))"
| "lock_acquire TimesOut fn ws =
     (Rejected lock_error, elapse lock_timeout (fst ws), snd ws)"

section \<open>The handlers\<close>

text \<open>
  A handler takes the world and the cached state and gives back the callback it made
  with the world and the state it leaves. The \<open>try\<close>/\<open>catch\<close> around
  \<open>neviweb.updateDevice\<close> is the same text in the three write handlers. The read
  handlers are given for a lock that runs their \<open>getState\<close>; the write of the target
  mode takes the lock's answer as an argument.
\<close>

definition try_updateDevice ::
  "Neviweb \<Rightarrow> SinopeDevice \<Rightarrow> SinopeDeviceStateRequest \<Rightarrow> World \<Rightarrow> World" where
  "try_updateDevice nv d body w =
     (case call_updateDevice nv d body w of
        (Inr u, w1) \<Rightarrow> log_debug w1 ''updated device %s with TargetTemperature %d''
      | (Inl e, w1) \<Rightarrow> log_error w1 ''could not update TargetTemperature of device %s'')"

definition empty_request :: SinopeDeviceStateRequest where
  "empty_request = \<lparr>req_roomSetpoint = None, req_setpointMode = None, req_onOff = None\<rparr>"

subsection \<open>Thermostat\<close>

definition handleCurrentHeatingCoolingStateGet ::
  "Neviweb \<Rightarrow> SinopeDevice \<Rightarrow> World \<times> State \<Rightarrow> callback \<times> World \<times> State" where
  "handleCurrentHeatingCoolingStateGet nv d ws =
     (case ws of (w, s) \<Rightarrow>
        (case getState nv d (log_debug w ''Triggered GET CurrentHeatingCoolingState'', s) of
           (w1, state) \<Rightarrow>
             (Callback None (number_value (currentHeatingCoolingState state)), w1, state)))"

definition handleTargetHeatingCoolingStateGet ::
  "Neviweb \<Rightarrow> SinopeDevice \<Rightarrow> World \<times> State \<Rightarrow> callback \<times> World \<times> State" where
  "handleTargetHeatingCoolingStateGet nv d ws =
     (case ws of (w, s) \<Rightarrow>
        (case getState nv d (log_debug w ''Triggered GET TargetHeatingCoolingState'', s) of
           (w1, state) \<Rightarrow>
             (Callback None (number_value (targetHeatingCoolingState state)), w1, state)))"

text \<open>
  The patch of a target-mode write, from the mode written and the state \<open>getState\<close>
  returned (lines 97 to 112); \<open>None\<close> is the branch that calls back and returns.
\<close>

definition setpointMode_for :: "real \<Rightarrow> State \<Rightarrow> string option" where
  "setpointMode_for mode state =
     (if mode = 0 then Some ''off''
      else if mode \<noteq> 0 \<and> targetHeatingCoolingState state = Some 0 then Some ''auto''
      else None)"

text \<open>
  The write of the target mode awaits \<open>getState()\<close> outside any \<open>try\<close> (line 96). When
  the lock rejects it, the handler's own promise is rejected there: nothing after line
  96 runs, so no patch is sent and no callback is made (\<open>None\<close>). Otherwise the handler
  goes on with the state it was given.
\<close>

definition handleTargetHeatingCoolingStateSet ::
  "lock_answer \<Rightarrow> Neviweb \<Rightarrow> SinopeDevice \<Rightarrow> CharacteristicValue \<Rightarrow> World \<times> State
     \<Rightarrow> callback option \<times> World \<times> State" where
  "handleTargetHeatingCoolingStateSet answer nv d v ws =
     (case ws of (w, s) \<Rightarrow>
        (case lock_acquire answer (getState nv d)
                (log_debug w ''Triggered SET TargetHeatingCoolingState:'', s) of
           (Rejected e, w1, s1) \<Rightarrow> (None, w1, s1)
         | (Fulfilled state, w1, s1) \<Rightarrow>
             (case setpointMode_for (Number v) state of
                None \<Rightarrow> (Some (Callback None None), w1, state)
              | Some m \<Rightarrow>
                  (Some (Callback None None),
                   try_updateDevice nv d (empty_request\<lparr>req_setpointMode := Some m\<rparr>) w1,
                   state))))"

definition handleCurrentTemperatureGet ::
  "Neviweb \<Rightarrow> SinopeDevice \<Rightarrow> World \<times> State \<Rightarrow> callback \<times> World \<times> State" where
  "handleCurrentTemperatureGet nv d ws =
     (case ws of (w, s) \<Rightarrow>
        (case getState nv d (log_debug w ''Triggered GET CurrentTemperature'', s) of
           (w1, state) \<Rightarrow>
             (Callback None (number_value (currentTemperature state)), w1, state)))"

definition handleTargetTemperatureGet ::
  "Neviweb \<Rightarrow> SinopeDevice \<Rightarrow> World \<times> State \<Rightarrow> callback \<times> World \<times> State" where
  "handleTargetTemperatureGet nv d ws =
     (case ws of (w, s) \<Rightarrow>
        (case getState nv d (log_debug w ''Triggered GET TargetTemperature'', s) of
           (w1, state) \<Rightarrow>
             (Callback None (number_value (targetTemperature state)), w1, state)))"

definition handleTargetTemperatureSet ::
  "Neviweb \<Rightarrow> SinopeDevice \<Rightarrow> CharacteristicValue \<Rightarrow> World \<times> State
     \<Rightarrow> callback \<times> World \<times> State" where
  "handleTargetTemperatureSet nv d v ws =
     (case ws of (w, s) \<Rightarrow>
        (Callback None None,
         try_updateDevice nv d (empty_request\<lparr>req_roomSetpoint := Some (Number v)\<rparr>)
           (log_debug w ''Triggered SET TargetTemperature:''),
         s))"



subsection \<open>Switch\<close>

definition getOnCharacteristicHandler ::
  "Neviweb \<Rightarrow> SinopeDevice \<Rightarrow> World \<times> State \<Rightarrow> callback \<times> World \<times> State" where
  "getOnCharacteristicHandler nv d ws =
     (case ws of (w, s) \<Rightarrow>
        (case switch_getState nv d (log_debug w ''Triggered GET getOnCharacteristicHandler'', s) of
           (w1, state) \<Rightarrow> (Callback None (boolean_value (onOff state)), w1, state)))"

definition setOnCharacteristicHandler ::
  "Neviweb \<Rightarrow> SinopeDevice \<Rightarrow> CharacteristicValue \<Rightarrow> World \<times> State
     \<Rightarrow> callback \<times> World \<times> State" where
  "setOnCharacteristicHandler nv d v ws =
     (case ws of (w, s) \<Rightarrow>
        (Callback None None,
         try_updateDevice nv d
           (empty_request\<lparr>req_onOff := Some (if truthy v then ''on'' else ''off'')\<rparr>)
           (log_debug w ''Triggered SET Senope Switch State:''),
         s))"

section \<open>The adapters as the hub drives them\<close>






definition SinopeAccessory_new :: "Neviweb \<Rightarrow> SinopeDevice \<Rightarrow> World \<Rightarrow> World \<times> State" where
  "SinopeAccessory_new nv d w = updateState nv d (w, new_State)"




section \<open>Concurrent readers of one thermostat adapter\<close>

text \<open>
  \<open>getState\<close> runs its function under \<open>state.lock\<close>, an \<open>AsyncLock\<close> with a timeout of 5000
  milliseconds, on the one key \<open>STATE_KEY\<close>. The constructor calls \<open>updateState()\<close>
  directly, outside the lock, and does not await it. JavaScript runs a function until it
  awaits, so the adapter moves in four kinds of steps:
  \<^item> \<open>Read r\<close>: reader \<open>r\<close> calls \<open>getState\<close>. With the lock free its function starts at
    once; otherwise it joins the queue and its timer is set.
  \<^item> \<open>Fetched outcome\<close>: the fetch awaited by the lock's holder settles. The rest of
    \<open>updateState\<close> runs, the holder's promise is fulfilled with the state, and the lock
    passes down the queue.
  \<^item> \<open>ConstructorFetched outcome\<close>: the fetch of the constructor's \<open>updateState()\<close>
    settles and the rest of \<open>updateState\<close> runs, whoever holds the lock.
  \<^item> \<open>Tick ms\<close>: time passes. A reader that has been queued for the lock's timeout is
    rejected with the lock's error and leaves the queue.
  The function of \<open>getState\<close> has a single \<open>await\<close>, that of the fetch: a reader whose
  check finds the state valid returns without suspension. The lock is taken as a
  first-in first-out mutual exclusion with that timeout; its bound on the number of
  pending callers is not modelled.
\<close>

type_synonym reader = nat

datatype event =
  Read reader
  | Fetched "Error + SinopeDeviceState"
  | ConstructorFetched "Error + SinopeDeviceState"
  | Tick nat

text \<open>
  \<open>holder\<close> is the reader whose function awaits its fetch under the lock, \<open>queue\<close> the
  readers that wait for the lock with the time at which each joined, \<open>settled\<close> the
  promises of \<open>getState\<close> settled so far, and \<open>constructor_fetch\<close> says that the fetch of
  the constructor's \<open>updateState()\<close> is still in flight.
\<close>

record Adapter =
  world :: World
  state :: State
  holder :: "reader option"
  queue :: "(reader \<times> nat) list"
  settled :: "(reader \<times> settlement) list"
  constructor_fetch :: bool

text \<open>
  The adapter as its constructor leaves it (\<open>new_adapter\<close>): a new state, the lock free,
  and the \<open>fetchDevice\<close> call of \<open>this.updateState()\<close> made. \<open>idle_adapter\<close> is an adapter
  with nothing in flight.
\<close>

definition new_adapter :: "SinopeDevice \<Rightarrow> World \<Rightarrow> Adapter" where
  "new_adapter d w =
     \<lparr>world = w\<lparr>fetchDevice_calls := fetchDevice_calls w @ [device_id d]\<rparr>,
      state = new_State, holder = None, queue = [], settled = [], constructor_fetch = True\<rparr>"

definition idle_adapter :: "World \<Rightarrow> State \<Rightarrow> Adapter" where
  "idle_adapter w s =
     \<lparr>world = w, state = s, holder = None, queue = [], settled = [],
      constructor_fetch = False\<rparr>"

text \<open>
  The lock hands itself to the readers of a queue in turn (\<open>pass_lock\<close>). A reader whose
  check finds the state valid is fulfilled with it and the lock moves on; a reader that
  finds it expired calls \<open>fetchDevice\<close> and holds the lock while it awaits the outcome.
\<close>

fun pass_lock :: "SinopeDevice \<Rightarrow> (reader \<times> nat) list \<Rightarrow> Adapter \<Rightarrow> Adapter" where
  "pass_lock d [] c = c\<lparr>holder := None, queue := []\<rparr>"
| "pass_lock d ((r, t) # rs) c =
     (if \<not> isValid (world c) (validUntil (state c))
      then c\<lparr>world :=
               (log_debug (world c) ''updating state for accessory %s'')
                 \<lparr>fetchDevice_calls := fetchDevice_calls (world c) @ [device_id d]\<rparr>,
             holder := Some r, queue := rs\<rparr>
      else pass_lock d rs
             (c\<lparr>world := log_debug (world c) ''state is still valid for accessory %s'',
                settled := settled c @ [(r, Fulfilled (state c))]\<rparr>))"

definition timed_out :: "World \<Rightarrow> reader \<times> nat \<Rightarrow> bool" where
  "timed_out w rt = (snd rt + lock_timeout \<le> clock w)"

fun step :: "SinopeDevice \<Rightarrow> event \<Rightarrow> Adapter \<Rightarrow> Adapter" where
  "step d (Read r) c =
     (case holder c of
        None \<Rightarrow> pass_lock d [(r, clock (world c))] c
      | Some h \<Rightarrow> c\<lparr>queue := queue c @ [(r, clock (world c))]\<rparr>)"
| "step d (Fetched outcome) c =
     (case holder c of
        None \<Rightarrow> c
      | Some h \<Rightarrow>
          (case updateState_settled outcome (world c, state c) of
             (w1, s1) \<Rightarrow>
               pass_lock d (queue c)
                 (c\<lparr>world := w1, state := s1, settled := settled c @ [(h, Fulfilled s1)]\<rparr>)))"
| "step d (ConstructorFetched outcome) c =
     (if constructor_fetch c
      then (case updateState_settled outcome (world c, state c) of
              (w1, s1) \<Rightarrow> c\<lparr>world := w1, state := s1, constructor_fetch := False\<rparr>)
      else c)"
| "step d (Tick ms) c =
     (let w1 = elapse ms (world c)
      in c\<lparr>world := w1,
           queue := filter (\<lambda>rt. \<not> timed_out w1 rt) (queue c),
           settled := settled c @
             map (\<lambda>rt. (fst rt, Rejected lock_error)) (filter (timed_out w1) (queue c))\<rparr>)"

fun run :: "SinopeDevice \<Rightarrow> event list \<Rightarrow> Adapter \<Rightarrow> Adapter" where
  "run d [] c = c"
| "run d (e # es) c = run d es (step d e c)"

text \<open>
  What a schedule holds: the time that passes in it (\<open>ticks\<close>), whether it is made of
  arrivals and passing time only (\<open>arrivals\<close>), and its readers, split by how long each
  has been there when the schedule ends: less than the lock's timeout (\<open>served\<close>), or
  the timeout and more (\<open>late\<close>).
\<close>

fun ticks :: "event list \<Rightarrow> nat" where
  "ticks [] = 0"
| "ticks (Tick ms # es) = ms + ticks es"
| "ticks (e # es) = ticks es"

fun arrivals :: "event list \<Rightarrow> bool" where
  "arrivals [] = True"
| "arrivals (Fetched outcome # es) = False"
| "arrivals (ConstructorFetched outcome # es) = False"
| "arrivals (e # es) = arrivals es"

fun served :: "event list \<Rightarrow> reader list" where
  "served [] = []"
| "served (Read r # es) = (if ticks es < lock_timeout then r # served es else served es)"
| "served (e # es) = served es"

fun late :: "event list \<Rightarrow> reader list" where
  "late [] = []"
| "late (Read r # es) = (if lock_timeout \<le> ticks es then r # late es else late es)"
| "late (e # es) = late es"

section \<open>Example inputs\<close>

text \<open>Concrete devices, snapshots, vendors and worlds at which the theorems are evaluated.\<close>

definition thermostat_device :: SinopeDevice where
  "thermostat_device =
     \<lparr>device_id = 7, device_identifier = ''id-7'', device_name = ''Bedroom'',
      parentDevice_id = None, sku = ''TH1123WF'', vendor = ''Sinope''\<rparr>"

definition switch_device :: SinopeDevice where
  "switch_device =
     \<lparr>device_id = 9, device_identifier = ''id-9'', device_name = ''Heater plug'',
      parentDevice_id = None, sku = ''SP2600ZB'', vendor = ''Sinope''\<rparr>"

definition no_snapshot_fields :: SinopeDeviceState where
  "no_snapshot_fields =
     \<lparr>roomTemperature = None, roomSetpoint = None, outputPercentDisplay = None,
      setpointMode = None, onOff_vendor = None, wattageInstant = None\<rparr>"

definition heating_snapshot :: SinopeDeviceState where
  "heating_snapshot =
     no_snapshot_fields
       \<lparr>roomTemperature := Some \<lparr>rt_value = Some 19\<rparr>, roomSetpoint := Some 21,
        outputPercentDisplay := Some 5, setpointMode := Some ''auto''\<rparr>"

definition no_setpoint_snapshot :: SinopeDeviceState where
  "no_setpoint_snapshot =
     no_snapshot_fields
       \<lparr>roomTemperature := Some \<lparr>rt_value = Some 19\<rparr>, outputPercentDisplay := Some 0,
        setpointMode := Some ''off''\<rparr>"

definition switch_on_snapshot :: SinopeDeviceState where
  "switch_on_snapshot = no_snapshot_fields\<lparr>onOff_vendor := Some ''on''\<rparr>"

definition vendor_up :: "SinopeDeviceState \<Rightarrow> Neviweb" where
  "vendor_up deviceState =
     \<lparr>fetchDevice = (\<lambda>n. (120, Inr deviceState)), updateDevice = (\<lambda>n body. (80, Inr ()))\<rparr>"

definition vendor_down :: Neviweb where
  "vendor_down =
     \<lparr>fetchDevice = (\<lambda>n. (30, Inl (Error ''ECONNREFUSED''))),
      updateDevice = (\<lambda>n body. (30, Inl (Error ''ECONNREFUSED'')))\<rparr>"

definition world_at :: "nat \<Rightarrow> World" where
  "world_at ms =
     \<lparr>clock = ms, fetchDevice_calls = [], updateDevice_calls = [], log_lines = [],
      characteristic_updates = []\<rparr>"

definition cached_thermostat :: State where
  "cached_thermostat =
     \<lparr>currentTemperature = Some 20, targetTemperature = Some 22,
      currentHeatingCoolingState = Some 1, targetHeatingCoolingState = Some 1,
      onOff = None, validUntil = 1700000008\<rparr>"

section \<open>Frame lemmas of the refresh\<close>

lemma log_debug_frame [simp]:
  "clock (log_debug w m) = clock w"
  "fetchDevice_calls (log_debug w m) = fetchDevice_calls w"
  "updateDevice_calls (log_debug w m) = updateDevice_calls w"
  "characteristic_updates (log_debug w m) = characteristic_updates w"
  "currentEpoch (log_debug w m) = currentEpoch w"
  "isValid (log_debug w m) t = isValid w t"
  by (simp_all add: log_debug_def currentEpoch_def isValid_def)

lemma elapse_frame [simp]:
  "clock (elapse ms w) = clock w + ms"
  "fetchDevice_calls (elapse ms w) = fetchDevice_calls w"
  "updateDevice_calls (elapse ms w) = updateDevice_calls w"
  "log_lines (elapse ms w) = log_lines w"
  "characteristic_updates (elapse ms w) = characteristic_updates w"
  by (simp_all add: elapse_def)

lemma getState_valid:
  "isValid w (validUntil s) \<Longrightarrow>
     getState nv d (w, s) = (log_debug w ''state is still valid for accessory %s'', s)"
  by (simp add: getState_def)

lemma getState_expired:
  "\<not> isValid w (validUntil s) \<Longrightarrow>
     getState nv d (w, s) = updateState nv d (log_debug w ''updating state for accessory %s'', s)"
  by (simp add: getState_def)



lemma updateState_rejected:
  "fetchDevice nv (length (fetchDevice_calls w)) = (latency, Inl e) \<Longrightarrow>
     updateState nv d (w, s) =
       (log_error (w\<lparr>clock := clock w + latency,
                     fetchDevice_calls := fetchDevice_calls w @ [device_id d]\<rparr>)
          ''could not fetch update for device %s from Neviweb API'', s)"
  by (simp add: updateState_def call_fetchDevice_def updateState_settled_def updateState_failed_def)

lemma switch_updateState_rejected:
  "fetchDevice nv (length (fetchDevice_calls w)) = (latency, Inl e) \<Longrightarrow>
     switch_updateState nv d (w, s) =
       (log_error (w\<lparr>clock := clock w + latency,
                     fetchDevice_calls := fetchDevice_calls w @ [device_id d]\<rparr>)
          ''could not fetch update for device %s from Neviweb API'', s)"
  by (simp add: switch_updateState_def call_fetchDevice_def switch_updateState_settled_def
      updateState_failed_def)

lemma updateState_fulfilled:
  "fetchDevice nv (length (fetchDevice_calls w)) = (latency, Inr ds) \<Longrightarrow>
     updateState nv d (w, s) =
       updateState_fetched ds
         (w\<lparr>clock := clock w + latency,
            fetchDevice_calls := fetchDevice_calls w @ [device_id d]\<rparr>, s)"
  by (simp add: updateState_def call_fetchDevice_def updateState_settled_def)


lemma updateState_onOff_frame:
  "clock (fst (updateState_onOff ds (w, s))) = clock w"
  "fetchDevice_calls (fst (updateState_onOff ds (w, s))) = fetchDevice_calls w"
  "updateDevice_calls (fst (updateState_onOff ds (w, s))) = updateDevice_calls w"
  "validUntil (snd (updateState_onOff ds (w, s))) = validUntil s"
  by (simp_all add: updateState_onOff_def updateCharacteristic_def Let_def split: option.splits)

lemma updateState_thermostat_frame:
  "clock (fst (updateState_thermostat t ds (w, s))) = clock w"
  "fetchDevice_calls (fst (updateState_thermostat t ds (w, s))) = fetchDevice_calls w"
  "updateDevice_calls (fst (updateState_thermostat t ds (w, s))) = updateDevice_calls w"
  "validUntil (snd (updateState_thermostat t ds (w, s))) = validUntil s"
  by (simp_all add: updateState_thermostat_def updateCharacteristic_def Let_def)

lemma updateState_fetched_frame:
  "clock (fst (updateState_fetched ds (w, s))) = clock w"
  "fetchDevice_calls (fst (updateState_fetched ds (w, s))) = fetchDevice_calls w"
  "updateDevice_calls (fst (updateState_fetched ds (w, s))) = updateDevice_calls w"
  "validUntil (snd (updateState_fetched ds (w, s))) = currentEpoch w + 10"
  by (simp_all add: updateState_fetched_def Let_def updateState_onOff_frame
      updateState_thermostat_frame split: option.splits)


lemma updateState_frame:
  "fetchDevice_calls (fst (updateState nv d (w, s))) = fetchDevice_calls w @ [device_id d]"
  "updateDevice_calls (fst (updateState nv d (w, s))) = updateDevice_calls w"
  "clock (fst (updateState nv d (w, s))) = clock w + fst (fetchDevice nv (length (fetchDevice_calls w)))"
proof -
  obtain latency outcome where f: "fetchDevice nv (length (fetchDevice_calls w)) = (latency, outcome)"
    by (cases "fetchDevice nv (length (fetchDevice_calls w))")
  show "fetchDevice_calls (fst (updateState nv d (w, s))) = fetchDevice_calls w @ [device_id d]"
    using f by (cases outcome)
      (simp_all add: updateState_rejected updateState_fulfilled updateState_fetched_frame log_error_def)
  show "updateDevice_calls (fst (updateState nv d (w, s))) = updateDevice_calls w"
    using f by (cases outcome)
      (simp_all add: updateState_rejected updateState_fulfilled updateState_fetched_frame log_error_def)
  show "clock (fst (updateState nv d (w, s))) = clock w + fst (fetchDevice nv (length (fetchDevice_calls w)))"
    using f by (cases outcome)
      (simp_all add: updateState_rejected updateState_fulfilled updateState_fetched_frame log_error_def)
qed


lemma getState_updateDevice_calls:
  "updateDevice_calls (fst (getState nv d (w, s))) = updateDevice_calls w"
  by (simp add: getState_def updateState_frame)


lemma getState_fetchDevice_calls_valid:
  "isValid w (validUntil s) \<Longrightarrow> fetchDevice_calls (fst (getState nv d (w, s))) = fetchDevice_calls w"
  by (simp add: getState_valid)

lemma getState_rejected:
  "fetchDevice nv (length (fetchDevice_calls w)) = (latency, Inl e) \<Longrightarrow>
     snd (getState nv d (w, s)) = s"
  by (simp add: getState_def updateState_rejected)

lemma switch_getState_rejected:
  "fetchDevice nv (length (fetchDevice_calls w)) = (latency, Inl e) \<Longrightarrow>
     snd (switch_getState nv d (w, s)) = s"
  by (simp add: switch_getState_def switch_updateState_rejected)

section \<open>The state accessor\<close>

text \<open>
  Claim C1. For every call of \<open>getState\<close>: if the cached expiry is not strictly later
  than the current epoch, \<open>getState\<close> is \<open>updateState\<close> (after its debug line), so one
  more \<open>fetchDevice\<close> call reaches the vendor before the state is returned, and when
  that fetch is fulfilled the new expiry is the epoch at that moment plus 10 (when it
  is rejected the state is as before); if the expiry is strictly later, the state is
  returned as it is and no fetch is made. The state of a new adapter, with
  \<open>validUntil = 0\<close>, is never valid.
\<close>

theorem getState_refreshes_expired_cache:
  "(\<not> validUntil s > currentEpoch w \<longrightarrow>
      updateState nv d (log_debug w ''updating state for accessory %s'', s) =
        getState nv d (w, s)
      \<and> fetchDevice_calls (fst (getState nv d (w, s))) = fetchDevice_calls w @ [device_id d]
      \<and> (case fetchDevice nv (length (fetchDevice_calls w)) of
            (latency, Inr deviceState) \<Rightarrow>
              validUntil (snd (getState nv d (w, s))) = currentEpoch (elapse latency w) + 10
          | (latency, Inl e) \<Rightarrow> snd (getState nv d (w, s)) = s))
   \<and> (validUntil s > currentEpoch w \<longrightarrow>
        snd (getState nv d (w, s)) = s
        \<and> fetchDevice_calls (fst (getState nv d (w, s))) = fetchDevice_calls w)
   \<and> \<not> validUntil new_State > currentEpoch w"
proof (intro conjI impI)
  assume expired: "\<not> validUntil s > currentEpoch w"
  then have inv: "\<not> isValid w (validUntil s)"
    by (simp add: isValid_def)
  have "getState nv d (w, s) =
          updateState nv d (log_debug w ''updating state for accessory %s'', s)"
    using inv by (rule getState_expired)
  then show "updateState nv d (log_debug w ''updating state for accessory %s'', s) =
          getState nv d (w, s)"
    by simp
  show "fetchDevice_calls (fst (getState nv d (w, s))) = fetchDevice_calls w @ [device_id d]"
    using inv by (simp add: getState_expired updateState_frame)
  show "case fetchDevice nv (length (fetchDevice_calls w)) of
          (latency, Inr deviceState) \<Rightarrow>
            validUntil (snd (getState nv d (w, s))) = currentEpoch (elapse latency w) + 10
        | (latency, Inl e) \<Rightarrow> snd (getState nv d (w, s)) = s"
  proof (cases "fetchDevice nv (length (fetchDevice_calls w))")
    case (Pair latency outcome)
    show ?thesis
    proof (cases outcome)
      case (Inl e)
      with Pair show ?thesis
        by (simp add: getState_rejected)
    next
      case (Inr deviceState)
      with Pair inv show ?thesis
        by (simp add: getState_expired updateState_fulfilled updateState_fetched_frame
            currentEpoch_def elapse_def log_debug_def)
    qed
  qed
next
  assume "validUntil s > currentEpoch w"
  then have v: "isValid w (validUntil s)"
    by (simp add: isValid_def)
  then show "snd (getState nv d (w, s)) = s"
    by (simp add: getState_valid)
  from v show "fetchDevice_calls (fst (getState nv d (w, s))) = fetchDevice_calls w"
    by (simp add: getState_valid)
next
  show "\<not> validUntil new_State > currentEpoch w"
    by (simp add: new_State_def)
qed

theorem getState_refreshes_expired_cache_witness:
  "\<not> validUntil new_State > currentEpoch (world_at 1700000000123)
   \<and> fetchDevice_calls (fst (getState (vendor_up heating_snapshot) thermostat_device
         (world_at 1700000000123, new_State))) = [7]
   \<and> validUntil (snd (getState (vendor_up heating_snapshot) thermostat_device
         (world_at 1700000000123, new_State))) = 1700000011
   \<and> validUntil cached_thermostat > currentEpoch (world_at 1700000000123)
   \<and> snd (getState (vendor_up heating_snapshot) thermostat_device
         (world_at 1700000000123, cached_thermostat)) = cached_thermostat
   \<and> fetchDevice_calls (fst (getState (vendor_up heating_snapshot) thermostat_device
         (world_at 1700000000123, cached_thermostat))) = []"
  using getState_refreshes_expired_cache [where s = new_State and w = "world_at 1700000000123"
      and nv = "vendor_up heating_snapshot" and d = thermostat_device]
    getState_refreshes_expired_cache [where s = cached_thermostat and w = "world_at 1700000000123"
      and nv = "vendor_up heating_snapshot" and d = thermostat_device]
  by (simp add: new_State_def cached_thermostat_def world_at_def vendor_up_def
      thermostat_device_def currentEpoch_def elapse_def)


section \<open>The mapping of a snapshot\<close>

lemma updateState_thermostat_fields:
  "currentTemperature (snd (updateState_thermostat t ds (w, s))) = Some t"
  "targetTemperature (snd (updateState_thermostat t ds (w, s))) = roomSetpoint ds"
  "currentHeatingCoolingState (snd (updateState_thermostat t ds (w, s))) =
     Some (currentHeatingCoolingState_of ds)"
  "targetHeatingCoolingState (snd (updateState_thermostat t ds (w, s))) =
     Some (targetHeatingCoolingState_of ds)"
  "onOff (snd (updateState_thermostat t ds (w, s))) = onOff s"
  by (simp_all add: updateState_thermostat_def Let_def)

lemma updateState_fetched_thermostat:
  "roomTemperature ds = Some rt \<Longrightarrow> rt_value rt = Some t \<Longrightarrow>
     updateState_fetched ds (w, s) =
       updateState_thermostat t ds
         (log_debug w ''fetched update for device %s from Neviweb API: %s'',
          s\<lparr>validUntil := currentEpoch w + 10\<rparr>)"
  by (simp add: updateState_fetched_def Let_def)

lemma updateState_fetched_no_temperature:
  "roomTemperature ds = None \<or> (\<exists>rt. roomTemperature ds = Some rt \<and> rt_value rt = None) \<Longrightarrow>
     updateState_fetched ds (w, s) =
       updateState_onOff ds
         (log_debug w ''fetched update for device %s from Neviweb API: %s'',
          s\<lparr>validUntil := currentEpoch w + 10\<rparr>)"
  by (auto simp add: updateState_fetched_def Let_def)


text \<open>
  Claim C5. A refresh whose fetch is fulfilled with a snapshot that has a room
  temperature sets \<open>currentHeatingCoolingState\<close> to 1 when the output percent is present
  and greater than 0 and to 0 otherwise, and \<open>targetHeatingCoolingState\<close> to 3 for the
  setpoint mode "auto", to 0 for "off" and to 1 for anything else (also for no mode).
\<close>

theorem updateState_heating_cooling_states:
  assumes "fetchDevice nv (length (fetchDevice_calls w)) = (latency, Inr deviceState)"
    and "roomTemperature deviceState = Some rt" and "rt_value rt = Some temperature"
  shows "currentHeatingCoolingState (snd (updateState nv d (w, s))) =
           Some (if (\<exists>p. outputPercentDisplay deviceState = Some p \<and> p > 0) then 1 else 0)
       \<and> targetHeatingCoolingState (snd (updateState nv d (w, s))) =
           Some (if setpointMode deviceState = Some ''auto'' then 3
                 else if setpointMode deviceState = Some ''off'' then 0 else 1)"
proof -
  have "updateState nv d (w, s) =
      updateState_thermostat temperature deviceState
        (log_debug (w\<lparr>clock := clock w + latency,
                      fetchDevice_calls := fetchDevice_calls w @ [device_id d]\<rparr>)
           ''fetched update for device %s from Neviweb API: %s'',
         s\<lparr>validUntil :=
             currentEpoch (w\<lparr>clock := clock w + latency,
                             fetchDevice_calls := fetchDevice_calls w @ [device_id d]\<rparr>) + 10\<rparr>)"
    using assms by (simp add: updateState_fulfilled updateState_fetched_thermostat)
  then show ?thesis
    by (cases "outputPercentDisplay deviceState")
      (simp_all add: updateState_thermostat_fields currentHeatingCoolingState_of_def
        targetHeatingCoolingState_of_def)
qed

theorem updateState_heating_cooling_states_witness:
  "currentHeatingCoolingState (snd (updateState (vendor_up heating_snapshot) thermostat_device
      (world_at 1700000000123, new_State))) = Some 1
   \<and> targetHeatingCoolingState (snd (updateState (vendor_up heating_snapshot) thermostat_device
      (world_at 1700000000123, new_State))) = Some 3
   \<and> currentHeatingCoolingState (snd (updateState (vendor_up no_setpoint_snapshot) thermostat_device
      (world_at 1700000000123, cached_thermostat))) = Some 0
   \<and> targetHeatingCoolingState (snd (updateState (vendor_up no_setpoint_snapshot) thermostat_device
      (world_at 1700000000123, cached_thermostat))) = Some 0"
proof -
  have f: "fetchDevice (vendor_up x) n = (120, Inr x)" for x n
    by (simp add: vendor_up_def)
  have a: "roomTemperature heating_snapshot = Some \<lparr>rt_value = Some 19\<rparr>"
    "roomTemperature no_setpoint_snapshot = Some \<lparr>rt_value = Some 19\<rparr>"
    by (simp_all add: heating_snapshot_def no_setpoint_snapshot_def)
  have b: "rt_value \<lparr>rt_value = Some 19\<rparr> = Some 19"
    by simp
  show ?thesis
    using updateState_heating_cooling_states [where w = "world_at 1700000000123"
        and d = thermostat_device and s = new_State, OF f a(1) b]
      updateState_heating_cooling_states [where w = "world_at 1700000000123"
        and d = thermostat_device and s = cached_thermostat, OF f a(2) b]
    by (simp add: heating_snapshot_def no_setpoint_snapshot_def no_snapshot_fields_def)
qed


text \<open>
  Claim C7, as amended. A refresh whose fetch is fulfilled with a snapshot that has a room
  temperature assigns it to the cached current temperature and assigns the snapshot's
  room setpoint to the cached target temperature whether or not it is present (an
  absent setpoint leaves the cached target temperature undefined); only the push of the
  target temperature to the hub is guarded by its presence. With no room temperature
  both cached temperatures are left as they were.
\<close>

theorem updateState_temperatures:
  assumes "fetchDevice nv (length (fetchDevice_calls w)) = (latency, Inr deviceState)"
  shows "(\<forall>rt temperature.
            roomTemperature deviceState = Some rt \<and> rt_value rt = Some temperature \<longrightarrow>
              currentTemperature (snd (updateState nv d (w, s))) = Some temperature
              \<and> targetTemperature (snd (updateState nv d (w, s))) = roomSetpoint deviceState
              \<and> characteristic_updates (fst (updateState nv d (w, s))) =
                  characteristic_updates w
                  @ [(CurrentTemperature, Some (CVNumber temperature))]
                  @ (case roomSetpoint deviceState of
                       Some setpoint \<Rightarrow> [(TargetTemperature, Some (CVNumber setpoint))]
                     | None \<Rightarrow> [])
                  @ [(CurrentHeatingCoolingState,
                        Some (CVNumber (currentHeatingCoolingState_of deviceState))),
                     (TargetHeatingCoolingState,
                        Some (CVNumber (targetHeatingCoolingState_of deviceState)))])
       \<and> (roomTemperature deviceState = None
            \<or> (\<exists>rt. roomTemperature deviceState = Some rt \<and> rt_value rt = None) \<longrightarrow>
              currentTemperature (snd (updateState nv d (w, s))) = currentTemperature s
              \<and> targetTemperature (snd (updateState nv d (w, s))) = targetTemperature s)"
proof (intro conjI allI impI)
  fix rt temperature
  assume "roomTemperature deviceState = Some rt \<and> rt_value rt = Some temperature"
  then have u: "updateState nv d (w, s) =
      updateState_thermostat temperature deviceState
        (log_debug (w\<lparr>clock := clock w + latency,
                      fetchDevice_calls := fetchDevice_calls w @ [device_id d]\<rparr>)
           ''fetched update for device %s from Neviweb API: %s'',
         s\<lparr>validUntil :=
             currentEpoch (w\<lparr>clock := clock w + latency,
                             fetchDevice_calls := fetchDevice_calls w @ [device_id d]\<rparr>) + 10\<rparr>)"
    using assms by (simp add: updateState_fulfilled updateState_fetched_thermostat)
  show "currentTemperature (snd (updateState nv d (w, s))) = Some temperature"
    by (simp add: u updateState_thermostat_fields)
  show "targetTemperature (snd (updateState nv d (w, s))) = roomSetpoint deviceState"
    by (simp add: u updateState_thermostat_fields)
  show "characteristic_updates (fst (updateState nv d (w, s))) =
          characteristic_updates w
          @ [(CurrentTemperature, Some (CVNumber temperature))]
          @ (case roomSetpoint deviceState of
               Some setpoint \<Rightarrow> [(TargetTemperature, Some (CVNumber setpoint))]
             | None \<Rightarrow> [])
          @ [(CurrentHeatingCoolingState,
                Some (CVNumber (currentHeatingCoolingState_of deviceState))),
             (TargetHeatingCoolingState,
                Some (CVNumber (targetHeatingCoolingState_of deviceState)))]"
    by (cases "roomSetpoint deviceState")
      (simp_all add: u updateState_thermostat_def updateCharacteristic_def number_value_def
        Let_def)
next
  assume none: "roomTemperature deviceState = None
    \<or> (\<exists>rt. roomTemperature deviceState = Some rt \<and> rt_value rt = None)"
  have keep: "currentTemperature (snd (updateState_onOff deviceState (w', s'))) = currentTemperature s'
      \<and> targetTemperature (snd (updateState_onOff deviceState (w', s'))) = targetTemperature s'"
    for w' s'
    by (cases "onOff_vendor deviceState") (simp_all add: updateState_onOff_def Let_def)
  show "currentTemperature (snd (updateState nv d (w, s))) = currentTemperature s"
    using assms none
    by (simp add: updateState_fulfilled updateState_fetched_no_temperature keep)
  show "targetTemperature (snd (updateState nv d (w, s))) = targetTemperature s"
    using assms none
    by (simp add: updateState_fulfilled updateState_fetched_no_temperature keep)
qed

theorem updateState_temperatures_witness:
  "currentTemperature (snd (updateState (vendor_up heating_snapshot) thermostat_device
      (world_at 1700000000123, cached_thermostat))) = Some 19
   \<and> targetTemperature (snd (updateState (vendor_up heating_snapshot) thermostat_device
      (world_at 1700000000123, cached_thermostat))) = Some 21
   \<and> characteristic_updates (fst (updateState (vendor_up heating_snapshot) thermostat_device
      (world_at 1700000000123, cached_thermostat))) =
        [(CurrentTemperature, Some (CVNumber 19)), (TargetTemperature, Some (CVNumber 21)),
         (CurrentHeatingCoolingState, Some (CVNumber 1)),
         (TargetHeatingCoolingState, Some (CVNumber 3))]
   \<and> currentTemperature (snd (updateState (vendor_up switch_on_snapshot) thermostat_device
      (world_at 1700000000123, cached_thermostat))) = Some 20
   \<and> targetTemperature (snd (updateState (vendor_up switch_on_snapshot) thermostat_device
      (world_at 1700000000123, cached_thermostat))) = Some 22"
proof -
  have f: "fetchDevice (vendor_up x) n = (120, Inr x)" for x n
    by (simp add: vendor_up_def)
  have a: "roomTemperature heating_snapshot = Some \<lparr>rt_value = Some 19\<rparr>
      \<and> rt_value \<lparr>rt_value = Some 19\<rparr> = Some 19"
    by (simp add: heating_snapshot_def)
  have b: "roomTemperature switch_on_snapshot = None"
    by (simp add: switch_on_snapshot_def no_snapshot_fields_def)
  have c: "characteristic_updates (world_at 1700000000123) = []"
    "currentTemperature cached_thermostat = Some 20"
    "targetTemperature cached_thermostat = Some 22"
    "roomSetpoint heating_snapshot = Some 21"
    "currentHeatingCoolingState_of heating_snapshot = 1"
    "targetHeatingCoolingState_of heating_snapshot = 3"
    by (simp_all add: world_at_def cached_thermostat_def heating_snapshot_def
        no_snapshot_fields_def currentHeatingCoolingState_of_def targetHeatingCoolingState_of_def)
  show ?thesis
    using updateState_temperatures [where w = "world_at 1700000000123"
        and d = thermostat_device and s = cached_thermostat
        and nv = "vendor_up heating_snapshot" and deviceState = heating_snapshot, OF f]
      updateState_temperatures [where w = "world_at 1700000000123"
        and d = thermostat_device and s = cached_thermostat
        and nv = "vendor_up switch_on_snapshot" and deviceState = switch_on_snapshot, OF f]
      a b c
    by simp
qed

theorem target_temperature_overwritten_counterexample:
  "roomSetpoint no_setpoint_snapshot = None
   \<and> targetTemperature cached_thermostat = Some 22
   \<and> targetTemperature (snd (updateState (vendor_up no_setpoint_snapshot) thermostat_device
        (world_at 1700000009000, cached_thermostat))) = None"
proof -
  have f: "fetchDevice (vendor_up x) n = (120, Inr x)" for x n
    by (simp add: vendor_up_def)
  have a: "roomTemperature no_setpoint_snapshot = Some \<lparr>rt_value = Some 19\<rparr>"
    "roomSetpoint no_setpoint_snapshot = None"
    by (simp_all add: no_setpoint_snapshot_def no_snapshot_fields_def)
  show ?thesis
    using a
    by (simp add: updateState_fulfilled [OF f] updateState_fetched_thermostat [OF a(1)]
        updateState_thermostat_fields cached_thermostat_def)
qed


section \<open>Failure of the vendor\<close>

lemma try_updateDevice_frame:
  "fetchDevice_calls (try_updateDevice nv d body w) = fetchDevice_calls w"
  "updateDevice_calls (try_updateDevice nv d body w) = updateDevice_calls w @ [(device_id d, body)]"
  "characteristic_updates (try_updateDevice nv d body w) = characteristic_updates w"
  "log_lines (try_updateDevice nv d body w) =
     log_lines w @
       [case snd (updateDevice nv (length (updateDevice_calls w)) body) of
          Inl e \<Rightarrow> LogError ''could not update TargetTemperature of device %s''
        | Inr u \<Rightarrow> LogDebug ''updated device %s with TargetTemperature %d'']"
  by (simp_all add: try_updateDevice_def call_updateDevice_def log_debug_def log_error_def
      split: prod.splits sum.splits)

lemma read_handlers:
  "handleCurrentTemperatureGet nv d (w, s) =
     (Callback None (number_value (currentTemperature
        (snd (getState nv d (log_debug w ''Triggered GET CurrentTemperature'', s))))),
      getState nv d (log_debug w ''Triggered GET CurrentTemperature'', s))"
  "handleTargetTemperatureGet nv d (w, s) =
     (Callback None (number_value (targetTemperature
        (snd (getState nv d (log_debug w ''Triggered GET TargetTemperature'', s))))),
      getState nv d (log_debug w ''Triggered GET TargetTemperature'', s))"
  "handleCurrentHeatingCoolingStateGet nv d (w, s) =
     (Callback None (number_value (currentHeatingCoolingState
        (snd (getState nv d (log_debug w ''Triggered GET CurrentHeatingCoolingState'', s))))),
      getState nv d (log_debug w ''Triggered GET CurrentHeatingCoolingState'', s))"
  "handleTargetHeatingCoolingStateGet nv d (w, s) =
     (Callback None (number_value (targetHeatingCoolingState
        (snd (getState nv d (log_debug w ''Triggered GET TargetHeatingCoolingState'', s))))),
      getState nv d (log_debug w ''Triggered GET TargetHeatingCoolingState'', s))"
  "getOnCharacteristicHandler nv d (w, s) =
     (Callback None (boolean_value (onOff
        (snd (switch_getState nv d (log_debug w ''Triggered GET getOnCharacteristicHandler'', s))))),
      switch_getState nv d (log_debug w ''Triggered GET getOnCharacteristicHandler'', s))"
  by (simp_all add: handleCurrentTemperatureGet_def handleTargetTemperatureGet_def
      handleCurrentHeatingCoolingStateGet_def handleTargetHeatingCoolingStateGet_def
      getOnCharacteristicHandler_def split_beta)

text \<open>
  Claim C4. When the fetch of a refresh is rejected, the state after the refresh is the
  state before it, expiry included, in both adapters; the refresh adds one error line to
  the log; and each read handler calls back with no error and the field of that
  unchanged state.
\<close>

theorem rejected_fetch_keeps_cached_state:
  assumes "fetchDevice nv (length (fetchDevice_calls w)) = (latency, Inl e)"
  shows "snd (updateState nv d (w, s)) = s
       \<and> snd (switch_updateState nv d (w, s)) = s
       \<and> log_lines (fst (updateState nv d (w, s))) =
           log_lines w @ [LogError ''could not fetch update for device %s from Neviweb API'']
       \<and> log_lines (fst (switch_updateState nv d (w, s))) =
           log_lines w @ [LogError ''could not fetch update for device %s from Neviweb API'']
       \<and> snd (getState nv d (w, s)) = s
       \<and> snd (switch_getState nv d (w, s)) = s
       \<and> handleCurrentTemperatureGet nv d (w, s) =
           (Callback None (number_value (currentTemperature s)),
            fst (getState nv d (log_debug w ''Triggered GET CurrentTemperature'', s)), s)
       \<and> handleTargetTemperatureGet nv d (w, s) =
           (Callback None (number_value (targetTemperature s)),
            fst (getState nv d (log_debug w ''Triggered GET TargetTemperature'', s)), s)
       \<and> handleCurrentHeatingCoolingStateGet nv d (w, s) =
           (Callback None (number_value (currentHeatingCoolingState s)),
            fst (getState nv d (log_debug w ''Triggered GET CurrentHeatingCoolingState'', s)), s)
       \<and> handleTargetHeatingCoolingStateGet nv d (w, s) =
           (Callback None (number_value (targetHeatingCoolingState s)),
            fst (getState nv d (log_debug w ''Triggered GET TargetHeatingCoolingState'', s)), s)
       \<and> getOnCharacteristicHandler nv d (w, s) =
           (Callback None (boolean_value (onOff s)),
            fst (switch_getState nv d (log_debug w ''Triggered GET getOnCharacteristicHandler'', s)),
            s)"
proof -
  have g: "snd (getState nv d (log_debug w m, s)) = s" for m
    using assms by (simp add: getState_rejected)
  have sg: "snd (switch_getState nv d (log_debug w m, s)) = s" for m
    using assms by (simp add: switch_getState_rejected)
  show ?thesis
  proof (intro conjI)
    show "snd (updateState nv d (w, s)) = s"
      using assms by (simp add: updateState_rejected)
    show "snd (switch_updateState nv d (w, s)) = s"
      using assms by (simp add: switch_updateState_rejected)
    show "log_lines (fst (updateState nv d (w, s))) =
        log_lines w @ [LogError ''could not fetch update for device %s from Neviweb API'']"
      using assms by (simp add: updateState_rejected log_error_def)
    show "log_lines (fst (switch_updateState nv d (w, s))) =
        log_lines w @ [LogError ''could not fetch update for device %s from Neviweb API'']"
      using assms by (simp add: switch_updateState_rejected log_error_def)
    show "snd (getState nv d (w, s)) = s"
      using assms by (rule getState_rejected)
    show "snd (switch_getState nv d (w, s)) = s"
      using assms by (rule switch_getState_rejected)
    show "handleCurrentTemperatureGet nv d (w, s) =
        (Callback None (number_value (currentTemperature s)),
         fst (getState nv d (log_debug w ''Triggered GET CurrentTemperature'', s)), s)"
      using g by (simp add: read_handlers prod_eq_iff)
    show "handleTargetTemperatureGet nv d (w, s) =
        (Callback None (number_value (targetTemperature s)),
         fst (getState nv d (log_debug w ''Triggered GET TargetTemperature'', s)), s)"
      using g by (simp add: read_handlers prod_eq_iff)
    show "handleCurrentHeatingCoolingStateGet nv d (w, s) =
        (Callback None (number_value (currentHeatingCoolingState s)),
         fst (getState nv d (log_debug w ''Triggered GET CurrentHeatingCoolingState'', s)), s)"
      using g by (simp add: read_handlers prod_eq_iff)
    show "handleTargetHeatingCoolingStateGet nv d (w, s) =
        (Callback None (number_value (targetHeatingCoolingState s)),
         fst (getState nv d (log_debug w ''Triggered GET TargetHeatingCoolingState'', s)), s)"
      using g by (simp add: read_handlers prod_eq_iff)
    show "getOnCharacteristicHandler nv d (w, s) =
        (Callback None (boolean_value (onOff s)),
         fst (switch_getState nv d (log_debug w ''Triggered GET getOnCharacteristicHandler'', s)),
         s)"
      using sg by (simp add: read_handlers prod_eq_iff)
  qed
qed

theorem rejected_fetch_keeps_cached_state_witness:
  "snd (updateState vendor_down thermostat_device (world_at 1700000009000, cached_thermostat)) =
     cached_thermostat
   \<and> snd (getState vendor_down thermostat_device (world_at 1700000009000, cached_thermostat)) =
     cached_thermostat
   \<and> fst (handleTargetTemperatureGet vendor_down thermostat_device
        (world_at 1700000009000, cached_thermostat)) = Callback None (Some (CVNumber 22))
   \<and> fst (getOnCharacteristicHandler vendor_down switch_device
        (world_at 1700000009000, new_State)) = Callback None None"
proof -
  have f: "fetchDevice vendor_down n = (30, Inl (Error ''ECONNREFUSED''))" for n
    by (simp add: vendor_down_def)
  show ?thesis
    using rejected_fetch_keeps_cached_state [where w = "world_at 1700000009000"
        and d = thermostat_device and s = cached_thermostat, OF f]
      rejected_fetch_keeps_cached_state [where w = "world_at 1700000009000"
        and d = switch_device and s = new_State, OF f]
    by (simp add: number_value_def boolean_value_def cached_thermostat_def new_State_def)
qed

section \<open>The write handlers\<close>

lemma write_handlers:
  "handleTargetTemperatureSet nv d v (w, s) =
     (Callback None None,
      try_updateDevice nv d (empty_request\<lparr>req_roomSetpoint := Some (Number v)\<rparr>)
        (log_debug w ''Triggered SET TargetTemperature:''), s)"
  "setOnCharacteristicHandler nv d v (w, s) =
     (Callback None None,
      try_updateDevice nv d
        (empty_request\<lparr>req_onOff := Some (if truthy v then ''on'' else ''off'')\<rparr>)
        (log_debug w ''Triggered SET Senope Switch State:''), s)"
  "handleTargetHeatingCoolingStateSet Runs nv d v (w, s) =
     (Some (Callback None None),
      (case setpointMode_for (Number v)
              (snd (getState nv d (log_debug w ''Triggered SET TargetHeatingCoolingState:'', s))) of
         None \<Rightarrow> fst (getState nv d (log_debug w ''Triggered SET TargetHeatingCoolingState:'', s))
       | Some m \<Rightarrow>
           try_updateDevice nv d (empty_request\<lparr>req_setpointMode := Some m\<rparr>)
             (fst (getState nv d (log_debug w ''Triggered SET TargetHeatingCoolingState:'', s)))),
      snd (getState nv d (log_debug w ''Triggered SET TargetHeatingCoolingState:'', s)))"
  "handleTargetHeatingCoolingStateSet TimesOut nv d v (w, s) =
     (None, elapse lock_timeout (log_debug w ''Triggered SET TargetHeatingCoolingState:''), s)"
  by (simp_all add: handleTargetTemperatureSet_def setOnCharacteristicHandler_def
      handleTargetHeatingCoolingStateSet_def split_beta split: option.splits)

lemma getState_log_lines_valid:
  "isValid w (validUntil s) \<Longrightarrow>
     log_lines (fst (getState nv d (w, s))) =
       log_lines w @ [LogDebug ''state is still valid for accessory %s'']"
  by (simp add: getState_valid log_debug_def)

lemma target_mode_write_calls:
  "updateDevice_calls (fst (snd (handleTargetHeatingCoolingStateSet Runs nv d v (w, s)))) =
     updateDevice_calls w @
       (if Number v = 0
        then [(device_id d,
               \<lparr>req_roomSetpoint = None, req_setpointMode = Some ''off'', req_onOff = None\<rparr>)]
        else if targetHeatingCoolingState
                  (snd (getState nv d
                     (log_debug w ''Triggered SET TargetHeatingCoolingState:'', s))) = Some 0
        then [(device_id d,
               \<lparr>req_roomSetpoint = None, req_setpointMode = Some ''auto'', req_onOff = None\<rparr>)]
        else [])"
  by (simp add: write_handlers setpointMode_for_def try_updateDevice_frame
      getState_updateDevice_calls empty_request_def)

lemma updateState_onOff_keeps_mode:
  "targetHeatingCoolingState (snd (updateState_onOff ds (w, s))) = targetHeatingCoolingState s"
  by (cases "onOff_vendor ds") (simp_all add: updateState_onOff_def Let_def)

lemma getState_mode_cached:
  assumes "isValid w (validUntil s)
    \<or> (\<exists>latency e. fetchDevice nv (length (fetchDevice_calls w)) = (latency, Inl e))"
  shows "snd (getState nv d (log_debug w m, s)) = s"
  using assms
proof
  assume "isValid w (validUntil s)"
  then show ?thesis
    by (simp add: getState_valid)
next
  assume "\<exists>latency e. fetchDevice nv (length (fetchDevice_calls w)) = (latency, Inl e)"
  then obtain latency e where "fetchDevice nv (length (fetchDevice_calls w)) = (latency, Inl e)"
    by blast
  then show ?thesis
    by (simp add: getState_rejected)
qed

lemma getState_mode_refreshed:
  assumes "\<not> isValid w (validUntil s)"
    and "fetchDevice nv (length (fetchDevice_calls w)) = (latency, Inr ds)"
  shows "roomTemperature ds = Some rt \<Longrightarrow> rt_value rt = Some t \<Longrightarrow>
           targetHeatingCoolingState (snd (getState nv d (log_debug w m, s))) =
             Some (targetHeatingCoolingState_of ds)"
    and "roomTemperature ds = None \<or> (\<exists>rt. roomTemperature ds = Some rt \<and> rt_value rt = None) \<Longrightarrow>
           targetHeatingCoolingState (snd (getState nv d (log_debug w m, s))) =
             targetHeatingCoolingState s"
proof -
  have g: "getState nv d (log_debug w m, s) =
      updateState_fetched ds
        ((log_debug (log_debug w m) ''updating state for accessory %s'')
           \<lparr>clock := clock w + latency,
            fetchDevice_calls := fetchDevice_calls w @ [device_id d]\<rparr>, s)"
    using assms by (simp add: getState_expired updateState_fulfilled)
  show "targetHeatingCoolingState (snd (getState nv d (log_debug w m, s))) =
      Some (targetHeatingCoolingState_of ds)"
    if "roomTemperature ds = Some rt" and "rt_value rt = Some t"
    using that by (simp add: g updateState_fetched_thermostat updateState_thermostat_fields)
  show "targetHeatingCoolingState (snd (getState nv d (log_debug w m, s))) =
      targetHeatingCoolingState s"
    if "roomTemperature ds = None \<or> (\<exists>rt. roomTemperature ds = Some rt \<and> rt_value rt = None)"
    using that
    by (simp add: g updateState_fetched_no_temperature updateState_onOff_keeps_mode)
qed

text \<open>
  Claim C6, as amended. A write of the target temperature and a write of the switch make
  their \<open>updateDevice\<close> call and call back with no error whatever that call does: a
  rejected update only adds an error line to the log (a fulfilled one a debug line). A
  write of the target mode whose \<open>getState\<close> the lock runs calls back with no error as
  well, with its one \<open>updateDevice\<close> call and the same log line when it sends a patch and
  nothing more than \<open>getState\<close> did when it sends none. When the lock rejects that \<open>getState\<close> after its timeout, the
  handler stops there: it makes no callback and no call to the vendor.
\<close>

theorem write_handlers_call_back_without_error:
  assumes "g = getState nv d (log_debug w ''Triggered SET TargetHeatingCoolingState:'', s)"
  shows "fst (handleTargetTemperatureSet nv d v (w, s)) = Callback None None
       \<and> updateDevice_calls (fst (snd (handleTargetTemperatureSet nv d v (w, s)))) =
           updateDevice_calls w @
             [(device_id d,
               \<lparr>req_roomSetpoint = Some (Number v), req_setpointMode = None, req_onOff = None\<rparr>)]
       \<and> log_lines (fst (snd (handleTargetTemperatureSet nv d v (w, s)))) =
           log_lines w @
             [LogDebug ''Triggered SET TargetTemperature:'',
              case snd (updateDevice nv (length (updateDevice_calls w))
                     \<lparr>req_roomSetpoint = Some (Number v), req_setpointMode = None,
                      req_onOff = None\<rparr>) of
                Inl e \<Rightarrow> LogError ''could not update TargetTemperature of device %s''
              | Inr u \<Rightarrow> LogDebug ''updated device %s with TargetTemperature %d'']
       \<and> fst (setOnCharacteristicHandler nv d v (w, s)) = Callback None None
       \<and> updateDevice_calls (fst (snd (setOnCharacteristicHandler nv d v (w, s)))) =
           updateDevice_calls w @
             [(device_id d,
               \<lparr>req_roomSetpoint = None, req_setpointMode = None,
                req_onOff = Some (if truthy v then ''on'' else ''off'')\<rparr>)]
       \<and> log_lines (fst (snd (setOnCharacteristicHandler nv d v (w, s)))) =
           log_lines w @
             [LogDebug ''Triggered SET Senope Switch State:'',
              case snd (updateDevice nv (length (updateDevice_calls w))
                     \<lparr>req_roomSetpoint = None, req_setpointMode = None,
                      req_onOff = Some (if truthy v then ''on'' else ''off'')\<rparr>) of
                Inl e \<Rightarrow> LogError ''could not update TargetTemperature of device %s''
              | Inr u \<Rightarrow> LogDebug ''updated device %s with TargetTemperature %d'']
       \<and> fst (handleTargetHeatingCoolingStateSet Runs nv d v (w, s)) = Some (Callback None None)
       \<and> log_lines (fst (snd (handleTargetHeatingCoolingStateSet Runs nv d v (w, s)))) =
           log_lines (fst g) @
             (case setpointMode_for (Number v) (snd g) of
                None \<Rightarrow> []
              | Some m \<Rightarrow>
                  [case snd (updateDevice nv (length (updateDevice_calls w))
                         \<lparr>req_roomSetpoint = None, req_setpointMode = Some m,
                          req_onOff = None\<rparr>) of
                     Inl e \<Rightarrow> LogError ''could not update TargetTemperature of device %s''
                   | Inr u \<Rightarrow> LogDebug ''updated device %s with TargetTemperature %d''])
       \<and> updateDevice_calls (fst (snd (handleTargetHeatingCoolingStateSet Runs nv d v (w, s)))) =
           updateDevice_calls w @
             (case setpointMode_for (Number v) (snd g) of
                None \<Rightarrow> []
              | Some m \<Rightarrow>
                  [(device_id d,
                    \<lparr>req_roomSetpoint = None, req_setpointMode = Some m, req_onOff = None\<rparr>)])
       \<and> handleTargetHeatingCoolingStateSet TimesOut nv d v (w, s) =
           (None,
            elapse lock_timeout (log_debug w ''Triggered SET TargetHeatingCoolingState:''), s)"
proof (intro conjI)
  show "fst (handleTargetTemperatureSet nv d v (w, s)) = Callback None None"
    by (simp add: write_handlers)
  show "updateDevice_calls (fst (snd (handleTargetTemperatureSet nv d v (w, s)))) =
      updateDevice_calls w @
        [(device_id d,
          \<lparr>req_roomSetpoint = Some (Number v), req_setpointMode = None, req_onOff = None\<rparr>)]"
    by (simp add: write_handlers try_updateDevice_frame empty_request_def)
  show "log_lines (fst (snd (handleTargetTemperatureSet nv d v (w, s)))) =
      log_lines w @
        [LogDebug ''Triggered SET TargetTemperature:'',
         case snd (updateDevice nv (length (updateDevice_calls w))
                \<lparr>req_roomSetpoint = Some (Number v), req_setpointMode = None,
                 req_onOff = None\<rparr>) of
           Inl e \<Rightarrow> LogError ''could not update TargetTemperature of device %s''
         | Inr u \<Rightarrow> LogDebug ''updated device %s with TargetTemperature %d'']"
    by (simp add: write_handlers try_updateDevice_frame empty_request_def log_debug_def)
  show "fst (setOnCharacteristicHandler nv d v (w, s)) = Callback None None"
    by (simp add: write_handlers)
  show "updateDevice_calls (fst (snd (setOnCharacteristicHandler nv d v (w, s)))) =
      updateDevice_calls w @
        [(device_id d,
          \<lparr>req_roomSetpoint = None, req_setpointMode = None,
           req_onOff = Some (if truthy v then ''on'' else ''off'')\<rparr>)]"
    by (simp add: write_handlers try_updateDevice_frame empty_request_def)
  show "log_lines (fst (snd (setOnCharacteristicHandler nv d v (w, s)))) =
      log_lines w @
        [LogDebug ''Triggered SET Senope Switch State:'',
         case snd (updateDevice nv (length (updateDevice_calls w))
                \<lparr>req_roomSetpoint = None, req_setpointMode = None,
                 req_onOff = Some (if truthy v then ''on'' else ''off'')\<rparr>) of
           Inl e \<Rightarrow> LogError ''could not update TargetTemperature of device %s''
         | Inr u \<Rightarrow> LogDebug ''updated device %s with TargetTemperature %d'']"
    by (simp add: write_handlers try_updateDevice_frame empty_request_def log_debug_def)
  show "fst (handleTargetHeatingCoolingStateSet Runs nv d v (w, s)) = Some (Callback None None)"
    by (simp add: write_handlers)
  show "log_lines (fst (snd (handleTargetHeatingCoolingStateSet Runs nv d v (w, s)))) =
      log_lines (fst g) @
        (case setpointMode_for (Number v) (snd g) of
           None \<Rightarrow> []
         | Some m \<Rightarrow>
             [case snd (updateDevice nv (length (updateDevice_calls w))
                    \<lparr>req_roomSetpoint = None, req_setpointMode = Some m,
                     req_onOff = None\<rparr>) of
                Inl e \<Rightarrow> LogError ''could not update TargetTemperature of device %s''
              | Inr u \<Rightarrow> LogDebug ''updated device %s with TargetTemperature %d''])"
    by (cases "setpointMode_for (Number v) (snd g)")
      (simp_all add: assms write_handlers try_updateDevice_frame getState_updateDevice_calls
        empty_request_def)
  show "updateDevice_calls (fst (snd (handleTargetHeatingCoolingStateSet Runs nv d v (w, s)))) =
      updateDevice_calls w @
        (case setpointMode_for (Number v) (snd g) of
           None \<Rightarrow> []
         | Some m \<Rightarrow>
             [(device_id d,
               \<lparr>req_roomSetpoint = None, req_setpointMode = Some m, req_onOff = None\<rparr>)])"
    by (cases "setpointMode_for (Number v) (snd g)")
      (simp_all add: assms write_handlers try_updateDevice_frame getState_updateDevice_calls
        empty_request_def)
  show "handleTargetHeatingCoolingStateSet TimesOut nv d v (w, s) =
      (None, elapse lock_timeout (log_debug w ''Triggered SET TargetHeatingCoolingState:''), s)"
    by (simp add: write_handlers)
qed

theorem write_handlers_call_back_without_error_witness:
  "fst (handleTargetTemperatureSet vendor_down thermostat_device (CVNumber 21)
      (world_at 1700000000123, cached_thermostat)) = Callback None None
   \<and> updateDevice_calls (fst (snd (handleTargetTemperatureSet vendor_down thermostat_device
        (CVNumber 21) (world_at 1700000000123, cached_thermostat)))) =
       [(7, \<lparr>req_roomSetpoint = Some 21, req_setpointMode = None, req_onOff = None\<rparr>)]
   \<and> log_lines (fst (snd (handleTargetTemperatureSet vendor_down thermostat_device
        (CVNumber 21) (world_at 1700000000123, cached_thermostat)))) =
       [LogDebug ''Triggered SET TargetTemperature:'',
        LogError ''could not update TargetTemperature of device %s'']
   \<and> log_lines (fst (snd (setOnCharacteristicHandler (vendor_up switch_on_snapshot) switch_device
        (CVBoolean True) (world_at 1700000000123, new_State)))) =
       [LogDebug ''Triggered SET Senope Switch State:'',
        LogDebug ''updated device %s with TargetTemperature %d'']
   \<and> fst (handleTargetHeatingCoolingStateSet Runs vendor_down thermostat_device (CVNumber 0)
        (world_at 1700000000123, cached_thermostat)) = Some (Callback None None)
   \<and> log_lines (fst (snd (handleTargetHeatingCoolingStateSet Runs vendor_down thermostat_device
        (CVNumber 0) (world_at 1700000000123, cached_thermostat)))) =
       [LogDebug ''Triggered SET TargetHeatingCoolingState:'',
        LogDebug ''state is still valid for accessory %s'',
        LogError ''could not update TargetTemperature of device %s'']
   \<and> fst (handleTargetHeatingCoolingStateSet TimesOut vendor_down thermostat_device (CVNumber 0)
        (world_at 1700000000123, cached_thermostat)) = None"
proof -
  have v: "isValid (log_debug (world_at 1700000000123) m) (validUntil cached_thermostat)" for m
    by (simp add: isValid_def currentEpoch_def world_at_def cached_thermostat_def)
  have g: "getState vendor_down thermostat_device
      (log_debug (world_at 1700000000123) ''Triggered SET TargetHeatingCoolingState:'',
       cached_thermostat) =
    (log_debug (log_debug (world_at 1700000000123) ''Triggered SET TargetHeatingCoolingState:'')
       ''state is still valid for accessory %s'', cached_thermostat)"
    using v by (rule getState_valid)
  have k: "updateDevice vendor_down n body = (30, Inl (Error ''ECONNREFUSED''))"
    "updateDevice (vendor_up x) n body = (80, Inr ())"
    "updateDevice_calls (world_at 1700000000123) = []"
    "log_lines (world_at 1700000000123) = []"
    "device_id thermostat_device = 7"
    "setpointMode_for 0 cached_thermostat = Some ''off''" for n body x
    by (simp_all add: vendor_down_def vendor_up_def world_at_def thermostat_device_def
        setpointMode_for_def)
  note t1 = write_handlers_call_back_without_error [OF refl, where nv = vendor_down
      and d = thermostat_device and v = "CVNumber 21" and w = "world_at 1700000000123"
      and s = cached_thermostat]
  note t2 = write_handlers_call_back_without_error [OF refl,
      where nv = "vendor_up switch_on_snapshot"
      and d = switch_device and v = "CVBoolean True" and w = "world_at 1700000000123"
      and s = new_State]
  note t3 = write_handlers_call_back_without_error [OF refl, where nv = vendor_down
      and d = thermostat_device and v = "CVNumber 0" and w = "world_at 1700000000123"
      and s = cached_thermostat]
  have r1: "fst (handleTargetTemperatureSet vendor_down thermostat_device (CVNumber 21)
        (world_at 1700000000123, cached_thermostat)) = Callback None None"
    using t1 by blast
  have r2: "updateDevice_calls (fst (snd (handleTargetTemperatureSet vendor_down
        thermostat_device (CVNumber 21) (world_at 1700000000123, cached_thermostat)))) =
      [(7, \<lparr>req_roomSetpoint = Some 21, req_setpointMode = None, req_onOff = None\<rparr>)]"
    using conjunct1 [OF conjunct2 [OF t1]] by (simp add: k)
  have r3: "log_lines (fst (snd (handleTargetTemperatureSet vendor_down thermostat_device
        (CVNumber 21) (world_at 1700000000123, cached_thermostat)))) =
      [LogDebug ''Triggered SET TargetTemperature:'',
       LogError ''could not update TargetTemperature of device %s'']"
    using conjunct1 [OF conjunct2 [OF conjunct2 [OF t1]]] by (simp add: k)
  have r4: "log_lines (fst (snd (setOnCharacteristicHandler (vendor_up switch_on_snapshot)
        switch_device (CVBoolean True) (world_at 1700000000123, new_State)))) =
      [LogDebug ''Triggered SET Senope Switch State:'',
       LogDebug ''updated device %s with TargetTemperature %d'']"
    using t2 by (simp add: k)
  have r5: "fst (handleTargetHeatingCoolingStateSet Runs vendor_down thermostat_device
        (CVNumber 0) (world_at 1700000000123, cached_thermostat)) = Some (Callback None None)"
    using t3 by blast
  have r6: "log_lines (fst (snd (handleTargetHeatingCoolingStateSet Runs vendor_down
        thermostat_device (CVNumber 0) (world_at 1700000000123, cached_thermostat)))) =
      [LogDebug ''Triggered SET TargetHeatingCoolingState:'',
       LogDebug ''state is still valid for accessory %s'',
       LogError ''could not update TargetTemperature of device %s'']"
  proof -
    have "log_lines (fst (snd (handleTargetHeatingCoolingStateSet Runs vendor_down
          thermostat_device (CVNumber 0) (world_at 1700000000123, cached_thermostat)))) =
        log_lines (fst (getState vendor_down thermostat_device
          (log_debug (world_at 1700000000123) ''Triggered SET TargetHeatingCoolingState:'',
           cached_thermostat))) @
        (case setpointMode_for (Number (CVNumber 0))
                (snd (getState vendor_down thermostat_device
                   (log_debug (world_at 1700000000123)
                      ''Triggered SET TargetHeatingCoolingState:'', cached_thermostat))) of
           None \<Rightarrow> []
         | Some m \<Rightarrow>
             [case snd (updateDevice vendor_down (length (updateDevice_calls
                      (world_at 1700000000123)))
                    \<lparr>req_roomSetpoint = None, req_setpointMode = Some m,
                     req_onOff = None\<rparr>) of
                Inl e \<Rightarrow> LogError ''could not update TargetTemperature of device %s''
              | Inr u \<Rightarrow> LogDebug ''updated device %s with TargetTemperature %d''])"
      using t3 by blast
    then show ?thesis
      unfolding g by (simp add: k) (simp add: log_debug_def k)
  qed
  have r7: "fst (handleTargetHeatingCoolingStateSet TimesOut vendor_down thermostat_device
        (CVNumber 0) (world_at 1700000000123, cached_thermostat)) = None"
    using t3 by simp
  show ?thesis
    using r1 r2 r3 r4 r5 r6 r7 by blast
qed

text \<open>
  A write of the target mode, of the value 0 on a valid cache, that the lock rejects: no
  callback, no patch.
\<close>

theorem target_mode_write_without_callback_counterexample:
  "fst (handleTargetHeatingCoolingStateSet TimesOut (vendor_up heating_snapshot)
      thermostat_device (CVNumber 0) (world_at 1700000000123, cached_thermostat)) = None
   \<and> updateDevice_calls (fst (snd (handleTargetHeatingCoolingStateSet TimesOut
        (vendor_up heating_snapshot) thermostat_device (CVNumber 0)
        (world_at 1700000000123, cached_thermostat)))) = []"
  by (simp add: write_handlers world_at_def)

text \<open>
  Claim C3, as amended. Take a write of the target mode whose \<open>getState\<close> the lock runs,
  and let \<open>m\<close> be the target mode of the state that this \<open>getState\<close> returns. The handler
  calls back with no error, and the patches that reach the vendor are:
  \<open>{setpointMode: "off"}\<close> when the value written is 0; \<open>{setpointMode: "auto"}\<close> when the
  value is not 0 and \<open>m\<close> is 0; none when the value is not 0 and \<open>m\<close> is not 0. That \<open>m\<close> is
  the target mode cached before the write when the cache is still valid, when the fetch
  of its refresh is rejected, or when the snapshot fetched has no room temperature; it
  is the mode mapped from the snapshot when an expired cache is refreshed from a
  snapshot with a room temperature. When the lock rejects the handler's \<open>getState\<close> after
  its timeout, no patch is sent, whatever the value, and no callback is made.
\<close>

theorem target_mode_write_patch:
  assumes "g = getState nv d (log_debug w ''Triggered SET TargetHeatingCoolingState:'', s)"
    and "m = targetHeatingCoolingState (snd g)"
  shows "fst (handleTargetHeatingCoolingStateSet Runs nv d v (w, s)) = Some (Callback None None)
       \<and> updateDevice_calls (fst (snd (handleTargetHeatingCoolingStateSet Runs nv d v (w, s)))) =
           updateDevice_calls w @
             (if Number v = 0
              then [(device_id d,
                     \<lparr>req_roomSetpoint = None, req_setpointMode = Some ''off'',
                      req_onOff = None\<rparr>)]
              else if m = Some 0
              then [(device_id d,
                     \<lparr>req_roomSetpoint = None, req_setpointMode = Some ''auto'',
                      req_onOff = None\<rparr>)]
              else [])
       \<and> (isValid w (validUntil s)
            \<or> (\<exists>latency e. fetchDevice nv (length (fetchDevice_calls w)) = (latency, Inl e)) \<longrightarrow>
            m = targetHeatingCoolingState s)
       \<and> (\<forall>latency deviceState.
            \<not> isValid w (validUntil s)
            \<and> fetchDevice nv (length (fetchDevice_calls w)) = (latency, Inr deviceState) \<longrightarrow>
              m = (case roomTemperature deviceState of
                     None \<Rightarrow> targetHeatingCoolingState s
                   | Some rt \<Rightarrow>
                       (case rt_value rt of
                          None \<Rightarrow> targetHeatingCoolingState s
                        | Some temperature \<Rightarrow>
                            Some (targetHeatingCoolingState_of deviceState))))
       \<and> fst (handleTargetHeatingCoolingStateSet TimesOut nv d v (w, s)) = None
       \<and> updateDevice_calls (fst (snd (handleTargetHeatingCoolingStateSet TimesOut nv d v (w, s)))) =
           updateDevice_calls w"
proof (intro conjI impI allI)
  show "fst (handleTargetHeatingCoolingStateSet Runs nv d v (w, s)) = Some (Callback None None)"
    by (simp add: write_handlers)
  show "updateDevice_calls (fst (snd (handleTargetHeatingCoolingStateSet Runs nv d v (w, s)))) =
      updateDevice_calls w @
        (if Number v = 0
         then [(device_id d,
                \<lparr>req_roomSetpoint = None, req_setpointMode = Some ''off'', req_onOff = None\<rparr>)]
         else if m = Some 0
         then [(device_id d,
                \<lparr>req_roomSetpoint = None, req_setpointMode = Some ''auto'', req_onOff = None\<rparr>)]
         else [])"
    unfolding assms by (rule target_mode_write_calls)
  show "m = targetHeatingCoolingState s"
    if "isValid w (validUntil s)
      \<or> (\<exists>latency e. fetchDevice nv (length (fetchDevice_calls w)) = (latency, Inl e))"
    unfolding assms using that by (simp add: getState_mode_cached)
  show "m = (case roomTemperature deviceState of
               None \<Rightarrow> targetHeatingCoolingState s
             | Some rt \<Rightarrow>
                 (case rt_value rt of
                    None \<Rightarrow> targetHeatingCoolingState s
                  | Some temperature \<Rightarrow> Some (targetHeatingCoolingState_of deviceState)))"
    if "\<not> isValid w (validUntil s)
      \<and> fetchDevice nv (length (fetchDevice_calls w)) = (latency, Inr deviceState)"
    for latency deviceState
  proof -
    from that have e: "\<not> isValid w (validUntil s)"
      and f: "fetchDevice nv (length (fetchDevice_calls w)) = (latency, Inr deviceState)"
      by simp_all
    note r = getState_mode_refreshed [OF e f]
    show ?thesis
    proof (cases "roomTemperature deviceState")
      case None
      then show ?thesis
        unfolding assms by (simp add: r(2))
    next
      case (Some rt)
      show ?thesis
      proof (cases "rt_value rt")
        case None
        with Some show ?thesis
          unfolding assms by (simp add: r(2))
      next
        case (Some temperature)
        with \<open>roomTemperature deviceState = Some rt\<close> show ?thesis
          unfolding assms by (simp add: r(1))
      qed
    qed
  qed
  show "fst (handleTargetHeatingCoolingStateSet TimesOut nv d v (w, s)) = None"
    by (simp add: write_handlers)
  show "updateDevice_calls (fst (snd (handleTargetHeatingCoolingStateSet TimesOut nv d v (w, s)))) =
      updateDevice_calls w"
    by (simp add: write_handlers)
qed

theorem target_mode_write_patch_witness:
  "updateDevice_calls (fst (snd (handleTargetHeatingCoolingStateSet Runs vendor_down
      thermostat_device (CVNumber 1) (world_at 1700000000123, new_State)))) =
     [(7, \<lparr>req_roomSetpoint = None, req_setpointMode = Some ''auto'', req_onOff = None\<rparr>)]
   \<and> updateDevice_calls (fst (snd (handleTargetHeatingCoolingStateSet Runs vendor_down
      thermostat_device (CVNumber 1) (world_at 1700000000123, cached_thermostat)))) = []
   \<and> updateDevice_calls (fst (snd (handleTargetHeatingCoolingStateSet Runs vendor_down
      thermostat_device (CVNumber 0) (world_at 1700000000123, cached_thermostat)))) =
     [(7, \<lparr>req_roomSetpoint = None, req_setpointMode = Some ''off'', req_onOff = None\<rparr>)]
   \<and> updateDevice_calls (fst (snd (handleTargetHeatingCoolingStateSet Runs
      (vendor_up heating_snapshot) thermostat_device (CVNumber 1)
      (world_at 1700000000123, new_State)))) = []
   \<and> updateDevice_calls (fst (snd (handleTargetHeatingCoolingStateSet Runs
      (vendor_up no_setpoint_snapshot) thermostat_device (CVNumber 1)
      (world_at 1700000009000, cached_thermostat)))) =
     [(7, \<lparr>req_roomSetpoint = None, req_setpointMode = Some ''auto'', req_onOff = None\<rparr>)]
   \<and> fst (handleTargetHeatingCoolingStateSet TimesOut vendor_down thermostat_device (CVNumber 0)
        (world_at 1700000000123, cached_thermostat)) = None
   \<and> updateDevice_calls (fst (snd (handleTargetHeatingCoolingStateSet TimesOut vendor_down
      thermostat_device (CVNumber 0) (world_at 1700000000123, cached_thermostat)))) = []"
proof -
  have down: "\<exists>latency e. fetchDevice vendor_down n = (latency, Inl e)" for n
    by (simp add: vendor_down_def)
  have up: "fetchDevice (vendor_up x) n = (120, Inr x)" for x n
    by (simp add: vendor_up_def)
  have valid: "isValid (world_at 1700000000123) (validUntil cached_thermostat)"
    by (simp add: isValid_def currentEpoch_def world_at_def cached_thermostat_def)
  have expired: "\<not> isValid (world_at 1700000000123) (validUntil new_State)"
    "\<not> isValid (world_at 1700000009000) (validUntil cached_thermostat)"
    by (simp_all add: isValid_def currentEpoch_def world_at_def cached_thermostat_def
        new_State_def)
  have k: "targetHeatingCoolingState new_State = Some 0"
    "targetHeatingCoolingState cached_thermostat = Some 1"
    "updateDevice_calls (world_at n) = []"
    "device_id thermostat_device = 7"
    "roomTemperature heating_snapshot = Some \<lparr>rt_value = Some 19\<rparr>"
    "roomTemperature no_setpoint_snapshot = Some \<lparr>rt_value = Some 19\<rparr>"
    "targetHeatingCoolingState_of heating_snapshot = 3"
    "targetHeatingCoolingState_of no_setpoint_snapshot = 0" for n
    by (simp_all add: new_State_def cached_thermostat_def world_at_def thermostat_device_def
        heating_snapshot_def no_setpoint_snapshot_def no_snapshot_fields_def
        targetHeatingCoolingState_of_def)
  note t1 = target_mode_write_patch [OF refl refl, where nv = vendor_down
      and d = thermostat_device and v = "CVNumber 1" and w = "world_at 1700000000123"
      and s = new_State]
  note t2 = target_mode_write_patch [OF refl refl, where nv = vendor_down
      and d = thermostat_device and v = "CVNumber 1" and w = "world_at 1700000000123"
      and s = cached_thermostat]
  note t3 = target_mode_write_patch [OF refl refl, where nv = vendor_down
      and d = thermostat_device and v = "CVNumber 0" and w = "world_at 1700000000123"
      and s = cached_thermostat]
  note t4 = target_mode_write_patch [OF refl refl, where nv = "vendor_up heating_snapshot"
      and d = thermostat_device and v = "CVNumber 1" and w = "world_at 1700000000123"
      and s = new_State]
  note t5 = target_mode_write_patch [OF refl refl, where nv = "vendor_up no_setpoint_snapshot"
      and d = thermostat_device and v = "CVNumber 1" and w = "world_at 1700000009000"
      and s = cached_thermostat]
  have m1: "targetHeatingCoolingState (snd (getState vendor_down thermostat_device
      (log_debug (world_at 1700000000123) ''Triggered SET TargetHeatingCoolingState:'',
       new_State))) = targetHeatingCoolingState new_State"
    using t1 down by blast
  have m2: "targetHeatingCoolingState (snd (getState vendor_down thermostat_device
      (log_debug (world_at 1700000000123) ''Triggered SET TargetHeatingCoolingState:'',
       cached_thermostat))) = targetHeatingCoolingState cached_thermostat"
    using t2 valid by blast
  have m4: "targetHeatingCoolingState (snd (getState (vendor_up heating_snapshot)
      thermostat_device
      (log_debug (world_at 1700000000123) ''Triggered SET TargetHeatingCoolingState:'',
       new_State))) = Some 3"
    using conjunct1 [OF conjunct2 [OF conjunct2 [OF conjunct2 [OF t4]]]] expired(1) up
    by (simp add: k)
  have m5: "targetHeatingCoolingState (snd (getState (vendor_up no_setpoint_snapshot)
      thermostat_device
      (log_debug (world_at 1700000009000) ''Triggered SET TargetHeatingCoolingState:'',
       cached_thermostat))) = Some 0"
    using conjunct1 [OF conjunct2 [OF conjunct2 [OF conjunct2 [OF t5]]]] expired(2) up
    by (simp add: k)
  have r1: "updateDevice_calls (fst (snd (handleTargetHeatingCoolingStateSet Runs vendor_down
      thermostat_device (CVNumber 1) (world_at 1700000000123, new_State)))) =
     [(7, \<lparr>req_roomSetpoint = None, req_setpointMode = Some ''auto'', req_onOff = None\<rparr>)]"
    using conjunct1 [OF conjunct2 [OF t1]] by (simp add: m1 k)
  have r2: "updateDevice_calls (fst (snd (handleTargetHeatingCoolingStateSet Runs vendor_down
      thermostat_device (CVNumber 1) (world_at 1700000000123, cached_thermostat)))) = []"
    using conjunct1 [OF conjunct2 [OF t2]] by (simp add: m2 k)
  have r3: "updateDevice_calls (fst (snd (handleTargetHeatingCoolingStateSet Runs vendor_down
      thermostat_device (CVNumber 0) (world_at 1700000000123, cached_thermostat)))) =
     [(7, \<lparr>req_roomSetpoint = None, req_setpointMode = Some ''off'', req_onOff = None\<rparr>)]"
    using conjunct1 [OF conjunct2 [OF t3]] by (simp add: k)
  have r4: "updateDevice_calls (fst (snd (handleTargetHeatingCoolingStateSet Runs
      (vendor_up heating_snapshot) thermostat_device (CVNumber 1)
      (world_at 1700000000123, new_State)))) = []"
    using conjunct1 [OF conjunct2 [OF t4]] by (simp add: m4 k)
  have r5: "updateDevice_calls (fst (snd (handleTargetHeatingCoolingStateSet Runs
      (vendor_up no_setpoint_snapshot) thermostat_device (CVNumber 1)
      (world_at 1700000009000, cached_thermostat)))) =
     [(7, \<lparr>req_roomSetpoint = None, req_setpointMode = Some ''auto'', req_onOff = None\<rparr>)]"
    using conjunct1 [OF conjunct2 [OF t5]] by (simp add: m5 k)
  have r6: "fst (handleTargetHeatingCoolingStateSet TimesOut vendor_down thermostat_device
        (CVNumber 0) (world_at 1700000000123, cached_thermostat)) = None
    \<and> updateDevice_calls (fst (snd (handleTargetHeatingCoolingStateSet TimesOut vendor_down
      thermostat_device (CVNumber 0) (world_at 1700000000123, cached_thermostat)))) = []"
    using t3 by (simp add: k)
  show ?thesis
    using r1 r2 r3 r4 r5 r6 by blast
qed

text \<open>
  Three writes that the mode cached before the write does not decide. On a new state
  (cached mode 0) whose refresh maps the snapshot to mode 3, the write of 1 sends no
  patch. On an expired cache with mode 1 whose refresh maps the snapshot to mode 0, the
  write of 1 sends \<open>{setpointMode: "auto"}\<close>. And the write of 0 that the lock rejects
  sends nothing and makes no callback.
\<close>

theorem target_mode_write_patch_counterexample:
  "targetHeatingCoolingState new_State = Some 0
   \<and> updateDevice_calls (fst (snd (handleTargetHeatingCoolingStateSet Runs
        (vendor_up heating_snapshot) thermostat_device (CVNumber 1)
        (world_at 1700000000123, new_State)))) = []
   \<and> targetHeatingCoolingState cached_thermostat = Some 1
   \<and> updateDevice_calls (fst (snd (handleTargetHeatingCoolingStateSet Runs
        (vendor_up no_setpoint_snapshot) thermostat_device (CVNumber 1)
        (world_at 1700000009000, cached_thermostat)))) =
       [(7, \<lparr>req_roomSetpoint = None, req_setpointMode = Some ''auto'', req_onOff = None\<rparr>)]
   \<and> fst (handleTargetHeatingCoolingStateSet TimesOut (vendor_up heating_snapshot)
        thermostat_device (CVNumber 0) (world_at 1700000000123, cached_thermostat)) = None
   \<and> updateDevice_calls (fst (snd (handleTargetHeatingCoolingStateSet TimesOut
        (vendor_up heating_snapshot) thermostat_device (CVNumber 0)
        (world_at 1700000000123, cached_thermostat)))) = []"
proof -
  have up: "fetchDevice (vendor_up x) n = (120, Inr x)" for x n
    by (simp add: vendor_up_def)
  have expired: "\<not> isValid (world_at 1700000000123) (validUntil new_State)"
    "\<not> isValid (world_at 1700000009000) (validUntil cached_thermostat)"
    by (simp_all add: isValid_def currentEpoch_def world_at_def cached_thermostat_def
        new_State_def)
  have k: "targetHeatingCoolingState new_State = Some 0"
    "targetHeatingCoolingState cached_thermostat = Some 1"
    "updateDevice_calls (world_at n) = []"
    "device_id thermostat_device = 7"
    "roomTemperature heating_snapshot = Some \<lparr>rt_value = Some 19\<rparr>"
    "roomTemperature no_setpoint_snapshot = Some \<lparr>rt_value = Some 19\<rparr>"
    "rt_value \<lparr>rt_value = Some 19\<rparr> = Some 19"
    "targetHeatingCoolingState_of heating_snapshot = 3"
    "targetHeatingCoolingState_of no_setpoint_snapshot = 0" for n
    by (simp_all add: new_State_def cached_thermostat_def world_at_def thermostat_device_def
        heating_snapshot_def no_setpoint_snapshot_def no_snapshot_fields_def
        targetHeatingCoolingState_of_def)
  have m1: "targetHeatingCoolingState (snd (getState (vendor_up heating_snapshot)
      thermostat_device
      (log_debug (world_at 1700000000123) ''Triggered SET TargetHeatingCoolingState:'',
       new_State))) = Some 3"
    using getState_mode_refreshed(1) [OF expired(1) up k(5) k(7)] by (simp add: k)
  have m2: "targetHeatingCoolingState (snd (getState (vendor_up no_setpoint_snapshot)
      thermostat_device
      (log_debug (world_at 1700000009000) ''Triggered SET TargetHeatingCoolingState:'',
       cached_thermostat))) = Some 0"
    using getState_mode_refreshed(1) [OF expired(2) up k(6) k(7)] by (simp add: k)
  have c1: "updateDevice_calls (fst (snd (handleTargetHeatingCoolingStateSet Runs
        (vendor_up heating_snapshot) thermostat_device (CVNumber 1)
        (world_at 1700000000123, new_State)))) = []"
    by (simp add: target_mode_write_calls m1 k)
  have c2: "updateDevice_calls (fst (snd (handleTargetHeatingCoolingStateSet Runs
        (vendor_up no_setpoint_snapshot) thermostat_device (CVNumber 1)
        (world_at 1700000009000, cached_thermostat)))) =
       [(7, \<lparr>req_roomSetpoint = None, req_setpointMode = Some ''auto'', req_onOff = None\<rparr>)]"
    by (simp add: target_mode_write_calls m2 k)
  have c3: "fst (handleTargetHeatingCoolingStateSet TimesOut (vendor_up heating_snapshot)
        thermostat_device (CVNumber 0) (world_at 1700000000123, cached_thermostat)) = None
    \<and> updateDevice_calls (fst (snd (handleTargetHeatingCoolingStateSet TimesOut
        (vendor_up heating_snapshot) thermostat_device (CVNumber 0)
        (world_at 1700000000123, cached_thermostat)))) = []"
    by (simp add: write_handlers k)
  show ?thesis
    using c1 c2 c3 k(1,2) by blast
qed

text \<open>
  Claim C8, as amended. A write of the target temperature and a write of the switch leave
  the cached state, expiry included, exactly as it was. A write of the target mode first
  reads the state through \<open>getState\<close> and leaves the state as that read leaves it: as it
  was when the cache is still valid or the fetch is rejected, refreshed otherwise. No
  write puts anything of its patch into the cache, so a read that follows a
  target-temperature write while the expiry is still ahead calls back with the target
  temperature cached before the write and makes no fetch. (The write of the target mode
  is the one whose \<open>getState\<close> the lock runs; when the lock rejects it, the write leaves
  the state as it was.)
\<close>

theorem writes_leave_the_cache_to_getState:
  "snd (snd (handleTargetTemperatureSet nv d v (w, s))) = s
   \<and> snd (snd (setOnCharacteristicHandler nv d v (w, s))) = s
   \<and> snd (snd (handleTargetHeatingCoolingStateSet Runs nv d v (w, s))) =
       snd (getState nv d (log_debug w ''Triggered SET TargetHeatingCoolingState:'', s))
   \<and> (isValid w (validUntil s)
        \<or> (\<exists>latency e. fetchDevice nv (length (fetchDevice_calls w)) = (latency, Inl e)) \<longrightarrow>
        snd (snd (handleTargetHeatingCoolingStateSet Runs nv d v (w, s))) = s)
   \<and> snd (snd (handleTargetHeatingCoolingStateSet TimesOut nv d v (w, s))) = s
   \<and> (isValid (fst (snd (handleTargetTemperatureSet nv d v (w, s)))) (validUntil s) \<longrightarrow>
        fst (handleTargetTemperatureGet nv d (snd (handleTargetTemperatureSet nv d v (w, s)))) =
          Callback None (number_value (targetTemperature s))
        \<and> fetchDevice_calls
            (fst (snd (handleTargetTemperatureGet nv d
               (snd (handleTargetTemperatureSet nv d v (w, s)))))) = fetchDevice_calls w)"
proof (intro conjI impI)
  show "snd (snd (handleTargetTemperatureSet nv d v (w, s))) = s"
    by (simp add: write_handlers)
  show "snd (snd (setOnCharacteristicHandler nv d v (w, s))) = s"
    by (simp add: write_handlers)
  show "snd (snd (handleTargetHeatingCoolingStateSet Runs nv d v (w, s))) =
       snd (getState nv d (log_debug w ''Triggered SET TargetHeatingCoolingState:'', s))"
    by (simp add: write_handlers)
  show "snd (snd (handleTargetHeatingCoolingStateSet TimesOut nv d v (w, s))) = s"
    by (simp add: write_handlers)
next
  assume "isValid w (validUntil s)
        \<or> (\<exists>latency e. fetchDevice nv (length (fetchDevice_calls w)) = (latency, Inl e))"
  then have "snd (getState nv d (log_debug w ''Triggered SET TargetHeatingCoolingState:'', s)) = s"
    by (auto simp add: getState_valid getState_rejected)
  then show "snd (snd (handleTargetHeatingCoolingStateSet Runs nv d v (w, s))) = s"
    by (simp add: write_handlers)
next
  assume "isValid (fst (snd (handleTargetTemperatureSet nv d v (w, s)))) (validUntil s)"
  then have valid:
    "isValid (try_updateDevice nv d (empty_request\<lparr>req_roomSetpoint := Some (Number v)\<rparr>)
        (log_debug w ''Triggered SET TargetTemperature:'')) (validUntil s)"
    by (simp add: write_handlers)
  show "fst (handleTargetTemperatureGet nv d (snd (handleTargetTemperatureSet nv d v (w, s)))) =
          Callback None (number_value (targetTemperature s))"
    using valid by (simp add: write_handlers read_handlers getState_valid)
  show "fetchDevice_calls
          (fst (snd (handleTargetTemperatureGet nv d
             (snd (handleTargetTemperatureSet nv d v (w, s)))))) = fetchDevice_calls w"
    using valid by (simp add: write_handlers read_handlers getState_valid try_updateDevice_frame)
qed

theorem writes_leave_the_cache_to_getState_witness:
  "snd (snd (handleTargetHeatingCoolingStateSet Runs (vendor_up heating_snapshot) thermostat_device
      (CVNumber 1) (world_at 1700000000123, cached_thermostat))) = cached_thermostat
   \<and> fst (handleTargetTemperatureGet (vendor_up heating_snapshot) thermostat_device
        (snd (handleTargetTemperatureSet (vendor_up heating_snapshot) thermostat_device
           (CVNumber 18) (world_at 1700000000123, cached_thermostat)))) =
       Callback None (Some (CVNumber 22))
   \<and> fetchDevice_calls
        (fst (snd (handleTargetTemperatureGet (vendor_up heating_snapshot) thermostat_device
           (snd (handleTargetTemperatureSet (vendor_up heating_snapshot) thermostat_device
              (CVNumber 18) (world_at 1700000000123, cached_thermostat)))))) = []"
proof -
  have v: "isValid (world_at 1700000000123) (validUntil cached_thermostat)"
    by (simp add: isValid_def currentEpoch_def world_at_def cached_thermostat_def)
  have v': "isValid (fst (snd (handleTargetTemperatureSet (vendor_up heating_snapshot)
      thermostat_device (CVNumber 18) (world_at 1700000000123, cached_thermostat))))
      (validUntil cached_thermostat)"
    by (simp add: write_handlers try_updateDevice_def call_updateDevice_def vendor_up_def
        isValid_def currentEpoch_def world_at_def cached_thermostat_def log_debug_def)
  have c: "fetchDevice_calls (world_at 1700000000123) = []"
    "number_value (targetTemperature cached_thermostat) = Some (CVNumber 22)"
    by (simp_all add: world_at_def cached_thermostat_def number_value_def)
  have r1: "snd (snd (handleTargetHeatingCoolingStateSet Runs (vendor_up heating_snapshot)
      thermostat_device (CVNumber 1) (world_at 1700000000123, cached_thermostat))) =
      cached_thermostat"
    using writes_leave_the_cache_to_getState [where nv = "vendor_up heating_snapshot"
        and d = thermostat_device and v = "CVNumber 1" and w = "world_at 1700000000123"
        and s = cached_thermostat] v
    by blast
  have r2: "fst (handleTargetTemperatureGet (vendor_up heating_snapshot) thermostat_device
        (snd (handleTargetTemperatureSet (vendor_up heating_snapshot) thermostat_device
           (CVNumber 18) (world_at 1700000000123, cached_thermostat)))) =
       Callback None (number_value (targetTemperature cached_thermostat))
     \<and> fetchDevice_calls
        (fst (snd (handleTargetTemperatureGet (vendor_up heating_snapshot) thermostat_device
           (snd (handleTargetTemperatureSet (vendor_up heating_snapshot) thermostat_device
              (CVNumber 18) (world_at 1700000000123, cached_thermostat)))))) =
       fetchDevice_calls (world_at 1700000000123)"
    using writes_leave_the_cache_to_getState [where nv = "vendor_up heating_snapshot"
        and d = thermostat_device and v = "CVNumber 18" and w = "world_at 1700000000123"
        and s = cached_thermostat] v'
    by blast
  show ?thesis
    using r1 r2 c by simp
qed

theorem target_mode_write_refreshes_counterexample:
  "validUntil new_State = 0
   \<and> targetHeatingCoolingState new_State = Some 0
   \<and> validUntil (snd (snd (handleTargetHeatingCoolingStateSet Runs (vendor_up heating_snapshot)
        thermostat_device (CVNumber 1) (world_at 1700000000123, new_State)))) = 1700000011
   \<and> targetHeatingCoolingState (snd (snd (handleTargetHeatingCoolingStateSet Runs
        (vendor_up heating_snapshot) thermostat_device (CVNumber 1)
        (world_at 1700000000123, new_State)))) = Some 3"
proof -
  have f: "fetchDevice (vendor_up x) n = (120, Inr x)" for x n
    by (simp add: vendor_up_def)
  have a: "roomTemperature heating_snapshot = Some \<lparr>rt_value = Some 19\<rparr>"
    "setpointMode heating_snapshot = Some ''auto''"
    by (simp_all add: heating_snapshot_def no_snapshot_fields_def)
  have e: "\<not> isValid (world_at 1700000000123) (validUntil new_State)"
    by (simp add: isValid_def new_State_def)
  have b: "rt_value \<lparr>rt_value = Some 19\<rparr> = Some 19"
    by simp
  have g: "snd (getState (vendor_up heating_snapshot) thermostat_device
      (log_debug (world_at 1700000000123) m, new_State)) =
    snd (updateState (vendor_up heating_snapshot) thermostat_device
      (log_debug (log_debug (world_at 1700000000123) m) ''updating state for accessory %s'',
       new_State))" for m
    using e by (simp add: getState_expired)
  have c: "clock (world_at 1700000000123) = 1700000000123"
    by (simp add: world_at_def)
  have u1: "validUntil (snd (updateState (vendor_up heating_snapshot) thermostat_device
      (log_debug (log_debug (world_at 1700000000123) m) m', new_State))) = 1700000011" for m m'
    by (simp add: updateState_fulfilled [OF f] updateState_fetched_frame currentEpoch_def c)
  have u2: "targetHeatingCoolingState (snd (updateState (vendor_up heating_snapshot)
      thermostat_device (w, s))) = Some 3" for w s
    by (simp add: updateState_fulfilled [OF f] updateState_fetched_thermostat [OF a(1) b]
        updateState_thermostat_fields targetHeatingCoolingState_of_def a(2))
  show ?thesis
    by (simp add: write_handlers g u1 u2) (simp add: new_State_def)
qed

section \<open>The switch adapter\<close>




section \<open>A new adapter\<close>









section \<open>Concurrent readers\<close>

lemma run_append: "run d (es @ es') c = run d es' (run d es c)"
  by (induction es arbitrary: c) simp_all

lemma pass_lock_valid:
  "isValid (world c) (validUntil (state c)) \<Longrightarrow>
     holder (pass_lock d q c) = None
     \<and> queue (pass_lock d q c) = []
     \<and> state (pass_lock d q c) = state c
     \<and> settled (pass_lock d q c) = settled c @ map (\<lambda>rt. (fst rt, Fulfilled (state c))) q
     \<and> fetchDevice_calls (world (pass_lock d q c)) = fetchDevice_calls (world c)
     \<and> clock (world (pass_lock d q c)) = clock (world c)"
proof (induction q arbitrary: c)
  case Nil
  show ?case by simp
next
  case (Cons rt q)
  obtain r t where rt: "rt = (r, t)"
    by (cases rt)
  define c1 where "c1 = c\<lparr>world := log_debug (world c) ''state is still valid for accessory %s'',
    settled := settled c @ [(r, Fulfilled (state c))]\<rparr>"
  have "isValid (world c1) (validUntil (state c1))"
    using Cons.prems by (simp add: c1_def)
  from Cons.IH [OF this] have "holder (pass_lock d q c1) = None
     \<and> queue (pass_lock d q c1) = []
     \<and> state (pass_lock d q c1) = state c
     \<and> settled (pass_lock d q c1) =
         settled c @ (r, Fulfilled (state c)) # map (\<lambda>rt. (fst rt, Fulfilled (state c))) q
     \<and> fetchDevice_calls (world (pass_lock d q c1)) = fetchDevice_calls (world c)
     \<and> clock (world (pass_lock d q c1)) = clock (world c)"
    by (simp add: c1_def)
  moreover have "pass_lock d (rt # q) c = pass_lock d q c1"
    using Cons.prems by (simp add: rt c1_def)
  ultimately show ?case
    by (simp add: rt)
qed

lemma pass_lock_expired:
  "\<not> isValid (world c) (validUntil (state c)) \<Longrightarrow>
     pass_lock d (rt # q) c =
       c\<lparr>world :=
           (log_debug (world c) ''updating state for accessory %s'')
             \<lparr>fetchDevice_calls := fetchDevice_calls (world c) @ [device_id d]\<rparr>,
         holder := Some (fst rt), queue := q\<rparr>"
  by (cases rt) simp


text \<open>While a reader holds the lock and awaits its fetch, arrivals and the passing of time
  leave the state, the holder and the vendor calls alone.\<close>

lemma step_arrival_frame:
  assumes "holder c = Some h" and "arrivals [e]"
  shows "holder (step d e c) = Some h"
    and "state (step d e c) = state c"
    and "fetchDevice_calls (world (step d e c)) = fetchDevice_calls (world c)"
    and "clock (world (step d e c)) = clock (world c) + ticks [e]"
    and "set (settled c) \<subseteq> set (settled (step d e c))"
  using assms by (cases e; simp add: Let_def)+

lemma arrivals_Cons: "arrivals (e # es) \<longleftrightarrow> arrivals [e] \<and> arrivals es"
  by (cases e) simp_all

lemma ticks_Cons: "ticks (e # es) = ticks [e] + ticks es"
  by (cases e) simp_all

lemma run_arrivals_frame:
  assumes "holder c = Some h" and "arrivals es"
  shows "holder (run d es c) = Some h
       \<and> state (run d es c) = state c
       \<and> fetchDevice_calls (world (run d es c)) = fetchDevice_calls (world c)
       \<and> clock (world (run d es c)) = clock (world c) + ticks es
       \<and> set (settled c) \<subseteq> set (settled (run d es c))"
  using assms
proof (induction es arbitrary: c)
  case Nil
  show ?case using Nil.prems by simp
next
  case (Cons e es)
  from Cons.prems have e: "arrivals [e]" and es: "arrivals es"
    by (simp_all add: arrivals_Cons [of e es])
  note s = step_arrival_frame [OF Cons.prems(1) e, of d]
  from Cons.IH [OF s(1) es] s(2-5) show ?case
    by (auto simp add: ticks_Cons [of e es])
qed


text \<open>The queue is in the order of arrival, so the readers that a timer has rejected by
  some time come before those it has not.\<close>

lemma filter_sorted_split:
  fixes a b k :: nat
  assumes "sorted (map f q)" and "a \<le> b"
  shows "filter (\<lambda>x. f x + k \<le> a) q
           @ filter (\<lambda>x. f x + k \<le> b) (filter (\<lambda>x. \<not> f x + k \<le> a) q) =
         filter (\<lambda>x. f x + k \<le> b) q"
  using assms(1)
proof (induction q)
  case Nil
  show ?case by simp
next
  case (Cons x q)
  from Cons.prems have s: "sorted (map f q)" and le: "\<forall>y \<in> set q. f x \<le> f y"
    by simp_all
  show ?case
  proof (cases "f x + k \<le> a")
    case True
    with assms(2) have "f x + k \<le> b"
      by simp
    with True Cons.IH [OF s] show ?thesis
      by simp
  next
    case False
    with le have none: "\<forall>y \<in> set q. \<not> f y + k \<le> a"
      by fastforce
    then have "filter (\<lambda>x. f x + k \<le> a) q = []" and "filter (\<lambda>x. \<not> f x + k \<le> a) q = q"
      by (simp_all add: filter_empty_conv)
    with False show ?thesis
      by simp
  qed
qed

text \<open>While a reader holds the lock and awaits its fetch, the queue is the readers that
  have been there for less than the lock's timeout, in the order of their arrival, and
  the others have been rejected with the lock's error, in that order too.\<close>

lemma run_arrivals_queue:
  assumes "holder c = Some h" and "arrivals es"
    and "\<forall>rt \<in> set (queue c). snd rt \<le> clock (world c) \<and> clock (world c) < snd rt + lock_timeout"
    and "sorted (map snd (queue c))"
  shows "map fst (queue (run d es c)) =
           map fst (filter (\<lambda>rt. clock (world c) + ticks es < snd rt + lock_timeout) (queue c))
           @ served es
       \<and> settled (run d es c) =
           settled c @ map (\<lambda>x. (x, Rejected lock_error))
             (map fst (filter (\<lambda>rt. snd rt + lock_timeout \<le> clock (world c) + ticks es) (queue c))
              @ late es)"
  using assms
proof (induction es arbitrary: c)
  case Nil
  have "filter (\<lambda>rt. clock (world c) < snd rt + lock_timeout) (queue c) = queue c"
    and "filter (\<lambda>rt. snd rt + lock_timeout \<le> clock (world c)) (queue c) = []"
    using Nil.prems(3) by (simp_all add: filter_empty_conv not_le)
  then show ?case
    by simp
next
  case (Cons e es)
  show ?case
  proof (cases e)
    case (Read r)
    define c1 where "c1 = c\<lparr>queue := queue c @ [(r, clock (world c))]\<rparr>"
    have s: "step d e c = c1"
      using Read Cons.prems(1) by (simp add: c1_def)
    have "map fst (queue (run d es c1)) =
           map fst (filter (\<lambda>rt. clock (world c1) + ticks es < snd rt + lock_timeout) (queue c1))
           @ served es
       \<and> settled (run d es c1) =
           settled c1 @ map (\<lambda>x. (x, Rejected lock_error))
             (map fst (filter (\<lambda>rt. snd rt + lock_timeout \<le> clock (world c1) + ticks es) (queue c1))
              @ late es)"
    proof (rule Cons.IH)
      show "holder c1 = Some h"
        using Cons.prems(1) by (simp add: c1_def)
      show "arrivals es"
        using Cons.prems(2) Read by simp
      show "\<forall>rt \<in> set (queue c1).
          snd rt \<le> clock (world c1) \<and> clock (world c1) < snd rt + lock_timeout"
        using Cons.prems(3) by (auto simp add: c1_def lock_timeout_def)
      show "sorted (map snd (queue c1))"
        using Cons.prems(3,4) by (auto simp add: c1_def sorted_append)
    qed
    then show ?thesis
      using Read s by (simp add: c1_def not_less)
  next
    case (Fetched outcome)
    then show ?thesis
      using Cons.prems(2) by simp
  next
    case (ConstructorFetched outcome)
    then show ?thesis
      using Cons.prems(2) by simp
  next
    case (Tick ms)
    define a where "a = clock (world c) + ms"
    define c1 where "c1 =
      c\<lparr>world := elapse ms (world c),
        queue := filter (\<lambda>rt. \<not> snd rt + lock_timeout \<le> a) (queue c),
        settled := settled c @
          map (\<lambda>rt. (fst rt, Rejected lock_error))
            (filter (\<lambda>rt. snd rt + lock_timeout \<le> a) (queue c))\<rparr>"
    have o: "timed_out w = (\<lambda>rt. snd rt + lock_timeout \<le> clock w)" for w
      by (rule ext) (simp add: timed_out_def)
    have s: "step d e c = c1"
      using Tick by (simp add: c1_def a_def Let_def o elapse_def)
    have k: "clock (world c1) = a"
      by (simp add: c1_def a_def elapse_def)
    have ih: "map fst (queue (run d es c1)) =
           map fst (filter (\<lambda>rt. clock (world c1) + ticks es < snd rt + lock_timeout) (queue c1))
           @ served es
       \<and> settled (run d es c1) =
           settled c1 @ map (\<lambda>x. (x, Rejected lock_error))
             (map fst (filter (\<lambda>rt. snd rt + lock_timeout \<le> clock (world c1) + ticks es) (queue c1))
              @ late es)"
    proof (rule Cons.IH)
      show "holder c1 = Some h"
        using Cons.prems(1) by (simp add: c1_def)
      show "arrivals es"
        using Cons.prems(2) Tick by simp
      show "\<forall>rt \<in> set (queue c1).
          snd rt \<le> clock (world c1) \<and> clock (world c1) < snd rt + lock_timeout"
        unfolding k using Cons.prems(3) by (auto simp add: c1_def a_def)
      show "sorted (map snd (queue c1))"
        using Cons.prems(4) by (simp add: c1_def sorted_filter)
    qed
    have q: "filter (\<lambda>rt. a + ticks es < snd rt + lock_timeout) (queue c1) =
        filter (\<lambda>rt. a + ticks es < snd rt + lock_timeout) (queue c)"
      by (auto simp add: c1_def intro: filter_cong)
    have r: "filter (\<lambda>rt. snd rt + lock_timeout \<le> a) (queue c)
          @ filter (\<lambda>rt. snd rt + lock_timeout \<le> a + ticks es) (queue c1) =
        filter (\<lambda>rt. snd rt + lock_timeout \<le> a + ticks es) (queue c)"
      unfolding c1_def using filter_sorted_split [OF Cons.prems(4), of a "a + ticks es" lock_timeout]
      by simp
    have t: "clock (world c) + ticks (e # es) = a + ticks es"
      using Tick by (simp add: a_def)
    have "settled (run d es c1) =
        settled c @ map (\<lambda>x. (x, Rejected lock_error))
          (map fst (filter (\<lambda>rt. snd rt + lock_timeout \<le> a) (queue c)
             @ filter (\<lambda>rt. snd rt + lock_timeout \<le> a + ticks es) (queue c1))
           @ late es)"
      using ih unfolding k by (simp add: c1_def comp_def)
    then have "settled (run d es c1) =
        settled c @ map (\<lambda>x. (x, Rejected lock_error))
          (map fst (filter (\<lambda>rt. snd rt + lock_timeout \<le> a + ticks es) (queue c)) @ late es)"
      unfolding r .
    moreover have "map fst (queue (run d es c1)) =
        map fst (filter (\<lambda>rt. a + ticks es < snd rt + lock_timeout) (queue c)) @ served es"
      using ih unfolding k q by blast
    ultimately show ?thesis
      unfolding t using Tick s by simp
  qed
qed

text \<open>The state that a fulfilled fetch leaves depends on the world through the clock
  only.\<close>

lemma updateState_fetched_clock:
  "clock w = clock w' \<Longrightarrow>
     snd (updateState_fetched ds (w, s)) = snd (updateState_fetched ds (w', s))"
  by (simp add: updateState_fetched_def updateState_thermostat_def updateState_onOff_def
      currentEpoch_def Let_def split: option.splits)

lemma step_Read_idle_expired:
  assumes "holder c = None" and "\<not> isValid (world c) (validUntil (state c))"
  shows "step d (Read r) c =
       c\<lparr>world :=
           (log_debug (world c) ''updating state for accessory %s'')
             \<lparr>fetchDevice_calls := fetchDevice_calls (world c) @ [device_id d]\<rparr>,
         holder := Some r, queue := []\<rparr>"
  using assms by simp

lemma step_Fetched_fulfilled:
  assumes "holder c = Some h"
  shows "state (step d (Fetched (Inr ds)) c) = snd (updateState_fetched ds (world c, state c))
       \<and> holder (step d (Fetched (Inr ds)) c) = None
       \<and> queue (step d (Fetched (Inr ds)) c) = []
       \<and> settled (step d (Fetched (Inr ds)) c) =
           settled c @ map (\<lambda>x. (x, Fulfilled (state (step d (Fetched (Inr ds)) c))))
             (h # map fst (queue c))
       \<and> fetchDevice_calls (world (step d (Fetched (Inr ds)) c)) = fetchDevice_calls (world c)
       \<and> clock (world (step d (Fetched (Inr ds)) c)) = clock (world c)
       \<and> isValid (world (step d (Fetched (Inr ds)) c))
           (validUntil (state (step d (Fetched (Inr ds)) c)))"
proof -
  obtain w1 s1 where u: "updateState_fetched ds (world c, state c) = (w1, s1)"
    by (cases "updateState_fetched ds (world c, state c)")
  define c1 where "c1 = c\<lparr>world := w1, state := s1, settled := settled c @ [(h, Fulfilled s1)]\<rparr>"
  have s: "step d (Fetched (Inr ds)) c = pass_lock d (queue c) c1"
    using assms u by (simp add: updateState_settled_def c1_def)
  have "clock w1 = clock (world c)" "validUntil s1 = currentEpoch (world c) + 10"
    "fetchDevice_calls w1 = fetchDevice_calls (world c)"
    using updateState_fetched_frame [of ds "world c" "state c"] u by simp_all
  then have v: "isValid (world c1) (validUntil (state c1))"
    and f: "fetchDevice_calls (world c1) = fetchDevice_calls (world c)"
    and k: "clock (world c1) = clock (world c)"
    by (simp_all add: c1_def isValid_def currentEpoch_def)
  from pass_lock_valid [OF v, of d "queue c"] f k v show ?thesis
    unfolding s by (simp add: u c1_def isValid_def currentEpoch_def comp_def)
qed


lemma log_error_frame [simp]:
  "clock (log_error w m) = clock w"
  "fetchDevice_calls (log_error w m) = fetchDevice_calls w"
  "updateDevice_calls (log_error w m) = updateDevice_calls w"
  "isValid (log_error w m) t = isValid w t"
  by (simp_all add: log_error_def currentEpoch_def isValid_def)

lemma step_Fetched_rejected:
  assumes "holder c = Some h" and "\<not> isValid (world c) (validUntil (state c))"
  shows "state (step d (Fetched (Inl e)) c) = state c
       \<and> fetchDevice_calls (world (step d (Fetched (Inl e)) c)) =
           fetchDevice_calls (world c) @ (if queue c = [] then [] else [device_id d])
       \<and> holder (step d (Fetched (Inl e)) c) =
           (case queue c of [] \<Rightarrow> None | rt # q \<Rightarrow> Some (fst rt))
       \<and> queue (step d (Fetched (Inl e)) c) = tl (queue c)
       \<and> settled (step d (Fetched (Inl e)) c) = settled c @ [(h, Fulfilled (state c))]"
proof -
  define c1 where "c1 =
    c\<lparr>world := log_error (world c) ''could not fetch update for device %s from Neviweb API'',
      settled := settled c @ [(h, Fulfilled (state c))]\<rparr>"
  have s: "step d (Fetched (Inl e)) c = pass_lock d (queue c) c1"
    using assms(1) by (simp add: updateState_settled_def updateState_failed_def c1_def)
  have x: "\<not> isValid (world c1) (validUntil (state c1))"
    using assms(2) by (simp add: c1_def)
  show ?thesis
  proof (cases "queue c")
    case Nil
    then show ?thesis
      unfolding s by (simp add: c1_def)
  next
    case (Cons rt q)
    then show ?thesis
      unfolding s by (simp add: pass_lock_expired [OF x]) (simp add: c1_def)
  qed
qed

lemma isValid_later:
  "\<not> isValid w t \<Longrightarrow> clock w \<le> clock w' \<Longrightarrow> \<not> isValid w' t"
proof -
  assume a: "\<not> isValid w t" and b: "clock w \<le> clock w'"
  from b have "(clock w + 999) div 1000 \<le> (clock w' + 999) div 1000"
    by (intro div_le_mono) simp
  with a show ?thesis
    by (simp add: isValid_def currentEpoch_def)
qed


text \<open>A reader that finds the lock free, and is alone, is \<open>getState\<close> as the handlers call
  it: the same world and the same state come out.\<close>

lemma lone_reader_is_getState:
  assumes "holder c = None"
    and "fetchDevice nv (length (fetchDevice_calls (world c))) = (latency, outcome)"
  shows "\<not> isValid (world c) (validUntil (state c)) \<Longrightarrow>
           world (run d [Read r, Tick latency, Fetched outcome] c) =
             fst (getState nv d (world c, state c))
           \<and> state (run d [Read r, Tick latency, Fetched outcome] c) =
             snd (getState nv d (world c, state c))
           \<and> settled (run d [Read r, Tick latency, Fetched outcome] c) =
             settled c @ [(r, Fulfilled (snd (getState nv d (world c, state c))))]"
    and "isValid (world c) (validUntil (state c)) \<Longrightarrow>
           world (run d [Read r] c) = fst (getState nv d (world c, state c))
           \<and> state (run d [Read r] c) = snd (getState nv d (world c, state c))
           \<and> settled (run d [Read r] c) =
             settled c @ [(r, Fulfilled (snd (getState nv d (world c, state c))))]"
proof -
  assume expired: "\<not> isValid (world c) (validUntil (state c))"
  define w1 where "w1 =
    (log_debug (world c) ''updating state for accessory %s'')
      \<lparr>clock := clock (world c) + latency,
       fetchDevice_calls := fetchDevice_calls (world c) @ [device_id d]\<rparr>"
  have g: "getState nv d (world c, state c) = updateState_settled outcome (w1, state c)"
    using expired assms(2)
    by (simp add: getState_def updateState_def call_fetchDevice_def w1_def log_debug_def)
  have comm: "v\<lparr>fetchDevice_calls := b, clock := a\<rparr> = v\<lparr>clock := a, fetchDevice_calls := b\<rparr>"
    for v :: World and a b
    by (cases v) simp
  have s: "run d [Read r, Tick latency, Fetched outcome] c =
      pass_lock d []
        (c\<lparr>world := fst (updateState_settled outcome (w1, state c)),
           state := snd (updateState_settled outcome (w1, state c)),
           holder := Some r, queue := [],
           settled := settled c @ [(r, Fulfilled (snd (updateState_settled outcome (w1, state c))))]\<rparr>)"
    using expired assms(1)
    by (simp add: Let_def elapse_def w1_def log_debug_def split_beta comm)
  show "world (run d [Read r, Tick latency, Fetched outcome] c) =
             fst (getState nv d (world c, state c))
           \<and> state (run d [Read r, Tick latency, Fetched outcome] c) =
             snd (getState nv d (world c, state c))
           \<and> settled (run d [Read r, Tick latency, Fetched outcome] c) =
             settled c @ [(r, Fulfilled (snd (getState nv d (world c, state c))))]"
    unfolding s g by simp
next
  assume "isValid (world c) (validUntil (state c))"
  then show "world (run d [Read r] c) = fst (getState nv d (world c, state c))
           \<and> state (run d [Read r] c) = snd (getState nv d (world c, state c))
           \<and> settled (run d [Read r] c) =
             settled c @ [(r, Fulfilled (snd (getState nv d (world c, state c))))]"
    using assms(1) by (simp add: getState_valid)
qed

text \<open>A caller that finds the lock held, and is still in the queue when the lock's
  timeout has passed, is \<open>lock_acquire TimesOut\<close>: the same rejection, the same world and the
  same state come out, and its function has not run.\<close>

lemma queued_reader_is_lock_acquire_TimesOut:
  assumes "holder c = Some h" and "queue c = []"
  shows "settled (run d [Read r, Tick lock_timeout] c) =
           settled c @ [(r, fst (lock_acquire TimesOut fn (world c, state c)))]
       \<and> world (run d [Read r, Tick lock_timeout] c) =
           fst (snd (lock_acquire TimesOut fn (world c, state c)))
       \<and> state (run d [Read r, Tick lock_timeout] c) =
           snd (snd (lock_acquire TimesOut fn (world c, state c)))
       \<and> holder (run d [Read r, Tick lock_timeout] c) = Some h
       \<and> queue (run d [Read r, Tick lock_timeout] c) = []"
  using assms by (simp add: Let_def timed_out_def elapse_def)

text \<open>The constructor's own refresh: when its fetch has settled and nothing else has
  happened, the adapter is the one that \<open>SinopeAccessory_new\<close> gives.\<close>

lemma constructor_refresh_is_SinopeAccessory_new:
  assumes "fetchDevice nv (length (fetchDevice_calls w)) = (latency, outcome)"
  shows "world (run d [Tick latency, ConstructorFetched outcome] (new_adapter d w)) =
           fst (SinopeAccessory_new nv d w)
       \<and> state (run d [Tick latency, ConstructorFetched outcome] (new_adapter d w)) =
           snd (SinopeAccessory_new nv d w)
       \<and> constructor_fetch (run d [Tick latency, ConstructorFetched outcome] (new_adapter d w)) =
           False"
proof -
  have comm: "v\<lparr>fetchDevice_calls := b, clock := a\<rparr> = v\<lparr>clock := a, fetchDevice_calls := b\<rparr>"
    for v :: World and a b
    by (cases v) simp
  show ?thesis
    using assms
    by (simp add: new_adapter_def SinopeAccessory_new_def updateState_def call_fetchDevice_def
        Let_def elapse_def split_beta comm)
qed

text \<open>
  Claim C2, as amended. Take an adapter whose lock is free, whose constructor's refresh
  has settled and whose cache has expired; a reader \<open>r\<close> that calls \<open>getState\<close>; and any
  readers that arrive, with any passing of time, while the fetch of \<open>r\<close> is in flight.
  If that fetch is fulfilled, then exactly one \<open>fetchDevice\<close> call has reached the
  vendor; the lock is free again; the state is the refreshed one and it is valid; the
  readers that had waited for the lock's timeout (5000 ms) or more have been rejected
  with the lock's error, each in its turn; and \<open>r\<close> and the readers that had waited for
  less have all been fulfilled with that one refreshed state, in the order of their
  arrival, and nobody else has been settled. If instead the fetch is rejected, the state
  stays as it was, \<open>r\<close> is fulfilled with it, the readers that had waited for the timeout
  have been rejected as before, and the first of the others, when there is one, takes the
  lock and makes a second \<open>fetchDevice\<close> call.
\<close>

theorem concurrent_readers_share_one_refresh:
  assumes idle: "holder c = None \<and> queue c = []"
    and constructed: "constructor_fetch c = False"
    and expired: "\<not> isValid (world c) (validUntil (state c))"
    and es: "arrivals es"
    and fulfilled: "c' = run d (Read r # es @ [Fetched (Inr deviceState)]) c"
    and rejected: "c'' = run d (Read r # es @ [Fetched (Inl e)]) c"
  shows "fetchDevice_calls (world c') = fetchDevice_calls (world c) @ [device_id d]
       \<and> holder c' = None \<and> queue c' = []
       \<and> state c' = snd (updateState_fetched deviceState (elapse (ticks es) (world c), state c))
       \<and> isValid (world c') (validUntil (state c'))
       \<and> settled c' =
           settled c @ map (\<lambda>x. (x, Rejected lock_error)) (late es)
           @ map (\<lambda>x. (x, Fulfilled (state c'))) (r # served es)
       \<and> state c'' = state c
       \<and> settled c'' =
           settled c @ map (\<lambda>x. (x, Rejected lock_error)) (late es) @ [(r, Fulfilled (state c))]
       \<and> fetchDevice_calls (world c'') =
           fetchDevice_calls (world c)
           @ (if served es = [] then [device_id d] else [device_id d, device_id d])
       \<and> holder c'' = (case served es of [] \<Rightarrow> None | x # xs \<Rightarrow> Some x)
       \<and> map fst (queue c'') = tl (served es)"
proof -
  define c1 where "c1 = step d (Read r) c"
  define c2 where "c2 = run d es c1"
  have c1: "holder c1 = Some r" "queue c1 = []" "state c1 = state c" "settled c1 = settled c"
    "fetchDevice_calls (world c1) = fetchDevice_calls (world c) @ [device_id d]"
    "clock (world c1) = clock (world c)"
    using idle expired by (simp_all add: c1_def)
  have frame: "holder c2 = Some r" "state c2 = state c"
    "fetchDevice_calls (world c2) = fetchDevice_calls (world c) @ [device_id d]"
    "clock (world c2) = clock (world c) + ticks es"
    using run_arrivals_frame [OF c1(1) es, of d] c1 by (simp_all add: c2_def)
  have "map fst (queue c2) =
          map fst (filter (\<lambda>rt. clock (world c1) + ticks es < snd rt + lock_timeout) (queue c1))
          @ served es
      \<and> settled c2 =
          settled c1 @ map (\<lambda>x. (x, Rejected lock_error))
            (map fst (filter (\<lambda>rt. snd rt + lock_timeout \<le> clock (world c1) + ticks es) (queue c1))
             @ late es)"
    unfolding c2_def using c1(1) es by (rule run_arrivals_queue) (simp_all add: c1(2))
  then have waiting: "map fst (queue c2) = served es"
    and gone: "settled c2 = settled c @ map (\<lambda>x. (x, Rejected lock_error)) (late es)"
    by (simp_all add: c1)
  have c': "c' = step d (Fetched (Inr deviceState)) c2"
    by (simp add: fulfilled run_append c2_def c1_def)
  have c'': "c'' = step d (Fetched (Inl e)) c2"
    by (simp add: rejected run_append c2_def c1_def)
  note ok = step_Fetched_fulfilled [OF frame(1), of d deviceState, folded c']
  have still: "\<not> isValid (world c2) (validUntil (state c2))"
    using expired frame(2,4) isValid_later [of "world c" "validUntil (state c)" "world c2"]
    by simp
  note ko = step_Fetched_rejected [OF frame(1) still, of d e, folded c'']
  have "state c' = snd (updateState_fetched deviceState (world c2, state c2))"
    using ok by blast
  then have s': "state c' =
      snd (updateState_fetched deviceState (elapse (ticks es) (world c), state c))"
    using frame(2,4)
      updateState_fetched_clock [of "world c2" "elapse (ticks es) (world c)" deviceState "state c"]
    by (simp add: elapse_def)
  have empty: "queue c2 = [] \<longleftrightarrow> served es = []"
    using waiting by (metis map_is_Nil_conv)
  show ?thesis
  proof (intro conjI)
    have "fetchDevice_calls (world c') = fetchDevice_calls (world c2)"
      using ok by blast
    then show "fetchDevice_calls (world c') = fetchDevice_calls (world c) @ [device_id d]"
      using frame(3) by simp
    show "holder c' = None" "queue c' = []" "isValid (world c') (validUntil (state c'))"
      using ok by blast+
    show "state c' = snd (updateState_fetched deviceState (elapse (ticks es) (world c), state c))"
      by (rule s')
    have "settled c' =
        settled c2 @ map (\<lambda>x. (x, Fulfilled (state c'))) (r # map fst (queue c2))"
      using ok by blast
    then show "settled c' =
        settled c @ map (\<lambda>x. (x, Rejected lock_error)) (late es)
        @ map (\<lambda>x. (x, Fulfilled (state c'))) (r # served es)"
      by (simp add: waiting gone)
    have "state c'' = state c2"
      using ko by blast
    then show "state c'' = state c"
      using frame(2) by simp
    have "settled c'' = settled c2 @ [(r, Fulfilled (state c2))]"
      using ko by blast
    then show "settled c'' =
        settled c @ map (\<lambda>x. (x, Rejected lock_error)) (late es) @ [(r, Fulfilled (state c))]"
      by (simp add: gone frame(2))
    have "fetchDevice_calls (world c'') =
        fetchDevice_calls (world c2) @ (if queue c2 = [] then [] else [device_id d])"
      using ko by blast
    then show "fetchDevice_calls (world c'') =
        fetchDevice_calls (world c)
        @ (if served es = [] then [device_id d] else [device_id d, device_id d])"
      using frame(3) empty by simp
    have "holder c'' = (case queue c2 of [] \<Rightarrow> None | rt # q \<Rightarrow> Some (fst rt))"
      using ko by blast
    then show "holder c'' = (case served es of [] \<Rightarrow> None | x # xs \<Rightarrow> Some x)"
      unfolding waiting [symmetric] by (cases "queue c2") simp_all
    have "queue c'' = tl (queue c2)"
      using ko by blast
    then show "map fst (queue c'') = tl (served es)"
      using waiting by (simp add: map_tl)
  qed
qed

theorem concurrent_readers_share_one_refresh_witness:
  "fetchDevice_calls (world (run thermostat_device
      [Read 1, Read 2, Tick 300, Read 3, Tick 4800, Read 4, Fetched (Inr heating_snapshot)]
      (idle_adapter (world_at 1700000000123) new_State))) = [7]
   \<and> settled (run thermostat_device
      [Read 1, Read 2, Tick 300, Read 3, Tick 4800, Read 4, Fetched (Inr heating_snapshot)]
      (idle_adapter (world_at 1700000000123) new_State)) =
     (2, Rejected lock_error) #
     map (\<lambda>x. (x, Fulfilled (state (run thermostat_device
        [Read 1, Read 2, Tick 300, Read 3, Tick 4800, Read 4, Fetched (Inr heating_snapshot)]
        (idle_adapter (world_at 1700000000123) new_State))))) [1, 3, 4]
   \<and> validUntil (state (run thermostat_device
      [Read 1, Read 2, Tick 300, Read 3, Tick 4800, Read 4, Fetched (Inr heating_snapshot)]
      (idle_adapter (world_at 1700000000123) new_State))) = 1700000016
   \<and> fetchDevice_calls (world (run thermostat_device
      [Read 1, Read 2, Tick 300, Read 3, Tick 4800, Read 4,
       Fetched (Inl (Error ''ECONNREFUSED''))]
      (idle_adapter (world_at 1700000000123) new_State))) = [7, 7]
   \<and> settled (run thermostat_device
      [Read 1, Read 2, Tick 300, Read 3, Tick 4800, Read 4,
       Fetched (Inl (Error ''ECONNREFUSED''))]
      (idle_adapter (world_at 1700000000123) new_State)) =
     [(2, Rejected lock_error), (1, Fulfilled new_State)]
   \<and> holder (run thermostat_device
      [Read 1, Read 2, Tick 300, Read 3, Tick 4800, Read 4,
       Fetched (Inl (Error ''ECONNREFUSED''))]
      (idle_adapter (world_at 1700000000123) new_State)) = Some 3"
proof -
  define c where "c = idle_adapter (world_at 1700000000123) new_State"
  define es where "es = [Read 2, Tick 300, Read 3, Tick 4800, Read 4]"
  have idle: "holder c = None \<and> queue c = []"
    by (simp add: c_def idle_adapter_def)
  have constructed: "constructor_fetch c = False"
    by (simp add: c_def idle_adapter_def)
  have expired: "\<not> isValid (world c) (validUntil (state c))"
    by (simp add: c_def idle_adapter_def isValid_def new_State_def)
  have es: "arrivals es"
    by (simp add: es_def)
  note t = concurrent_readers_share_one_refresh [OF idle constructed expired es refl refl,
      of thermostat_device 1 heating_snapshot "Error ''ECONNREFUSED''"]
  have r1: "fetchDevice_calls (world (run thermostat_device
        (Read 1 # es @ [Fetched (Inr heating_snapshot)]) c)) =
      fetchDevice_calls (world c) @ [device_id thermostat_device]"
    using t by blast
  have r2: "settled (run thermostat_device (Read 1 # es @ [Fetched (Inr heating_snapshot)]) c) =
      settled c @ map (\<lambda>x. (x, Rejected lock_error)) (late es)
      @ map (\<lambda>x. (x, Fulfilled (state (run thermostat_device
        (Read 1 # es @ [Fetched (Inr heating_snapshot)]) c)))) (1 # served es)"
    using t by blast
  have r3: "state (run thermostat_device (Read 1 # es @ [Fetched (Inr heating_snapshot)]) c) =
      snd (updateState_fetched heating_snapshot (elapse (ticks es) (world c), state c))"
    using t by blast
  have r4: "fetchDevice_calls (world (run thermostat_device
        (Read 1 # es @ [Fetched (Inl (Error ''ECONNREFUSED''))]) c)) =
      fetchDevice_calls (world c)
      @ (if served es = [] then [device_id thermostat_device]
         else [device_id thermostat_device, device_id thermostat_device])"
    using t by blast
  have r5: "settled (run thermostat_device
        (Read 1 # es @ [Fetched (Inl (Error ''ECONNREFUSED''))]) c) =
      settled c @ map (\<lambda>x. (x, Rejected lock_error)) (late es) @ [(1, Fulfilled (state c))]"
    using t by blast
  have r6: "holder (run thermostat_device
        (Read 1 # es @ [Fetched (Inl (Error ''ECONNREFUSED''))]) c) =
      (case served es of [] \<Rightarrow> None | x # xs \<Rightarrow> Some x)"
    using t by blast
  have k: "fetchDevice_calls (world c) = []" "settled c = []" "device_id thermostat_device = 7"
    "late es = [2]" "served es = [3, 4]" "state c = new_State"
    "Read 1 # es @ [x] = [Read 1, Read 2, Tick 300, Read 3, Tick 4800, Read 4, x]"
    "currentEpoch (elapse (ticks es) (world c)) + 10 = 1700000016" for x
    by (simp_all add: c_def es_def idle_adapter_def world_at_def thermostat_device_def
        currentEpoch_def elapse_def lock_timeout_def)
  from r3 have r3': "validUntil (state (run thermostat_device
      (Read 1 # es @ [Fetched (Inr heating_snapshot)]) c)) = 1700000016"
    by (simp add: updateState_fetched_frame k)
  show ?thesis
    using r1 r2 r3' r4 r5 r6 unfolding k c_def
    by (simp del: run.simps add: idle_adapter_def world_at_def)
qed

text \<open>
  Three schedules that the hypotheses and the split of the readers are there for. A
  rejected fetch extends no expiry, so the reader that waited fetches again: two
  readers, two \<open>fetchDevice\<close> calls. A reader
  that has waited 5000 ms for the lock is rejected with the lock's error and gets no
  snapshot. And on an adapter that has just been built, with its lock free and its cache
  stale, the constructor's refresh is in flight outside the lock, so the fetch of a
  single reader is the second one.
\<close>

theorem rejected_fetch_second_fetch_counterexample:
  "fetchDevice_calls (world (run thermostat_device
      [Read 1, Read 2, Fetched (Inl (Error ''ECONNREFUSED'')),
       Fetched (Inl (Error ''ECONNREFUSED''))]
      (idle_adapter (world_at 1700000000123) new_State))) = [7, 7]
   \<and> settled (run thermostat_device
      [Read 1, Read 2, Fetched (Inl (Error ''ECONNREFUSED'')),
       Fetched (Inl (Error ''ECONNREFUSED''))]
      (idle_adapter (world_at 1700000000123) new_State)) =
     [(1, Fulfilled new_State), (2, Fulfilled new_State)]
   \<and> fetchDevice_calls (world (run thermostat_device
      [Read 1, Read 2, Tick 5000, Fetched (Inr heating_snapshot)]
      (idle_adapter (world_at 1700000000123) new_State))) = [7]
   \<and> settled (run thermostat_device
      [Read 1, Read 2, Tick 5000, Fetched (Inr heating_snapshot)]
      (idle_adapter (world_at 1700000000123) new_State)) =
     [(2, Rejected lock_error),
      (1, Fulfilled (state (run thermostat_device
        [Read 1, Read 2, Tick 5000, Fetched (Inr heating_snapshot)]
        (idle_adapter (world_at 1700000000123) new_State))))]
   \<and> holder (new_adapter thermostat_device (world_at 1700000000123)) = None
   \<and> queue (new_adapter thermostat_device (world_at 1700000000123)) = []
   \<and> \<not> isValid (world (new_adapter thermostat_device (world_at 1700000000123)))
         (validUntil (state (new_adapter thermostat_device (world_at 1700000000123))))
   \<and> fetchDevice_calls (world (run thermostat_device
      [Read 1, Tick 120, ConstructorFetched (Inr heating_snapshot),
       Fetched (Inr heating_snapshot)]
      (new_adapter thermostat_device (world_at 1700000000123)))) = [7, 7]"
proof -
  have a: "fetchDevice_calls (world (run thermostat_device
      [Read 1, Read 2, Fetched (Inl (Error ''ECONNREFUSED'')),
       Fetched (Inl (Error ''ECONNREFUSED''))]
      (idle_adapter (world_at 1700000000123) new_State))) = [7, 7]
   \<and> settled (run thermostat_device
      [Read 1, Read 2, Fetched (Inl (Error ''ECONNREFUSED'')),
       Fetched (Inl (Error ''ECONNREFUSED''))]
      (idle_adapter (world_at 1700000000123) new_State)) =
     [(1, Fulfilled new_State), (2, Fulfilled new_State)]"
    by (simp add: idle_adapter_def world_at_def new_State_def isValid_def currentEpoch_def
        updateState_settled_def updateState_failed_def log_debug_def log_error_def
        thermostat_device_def)
  define c where "c = run thermostat_device [Read 1, Read 2, Tick 5000]
      (idle_adapter (world_at 1700000000123) new_State)"
  have c: "holder c = Some 1" "queue c = []" "settled c = [(2, Rejected lock_error)]"
    "fetchDevice_calls (world c) = [7]"
    by (simp_all add: c_def idle_adapter_def world_at_def new_State_def isValid_def
        currentEpoch_def log_debug_def thermostat_device_def Let_def timed_out_def
        lock_timeout_def elapse_def)
  have r: "run thermostat_device [Read 1, Read 2, Tick 5000, Fetched (Inr heating_snapshot)]
      (idle_adapter (world_at 1700000000123) new_State) =
      step thermostat_device (Fetched (Inr heating_snapshot)) c"
    by (simp add: c_def)
  note f = step_Fetched_fulfilled [OF c(1), of thermostat_device heating_snapshot]
  have b: "fetchDevice_calls (world (step thermostat_device (Fetched (Inr heating_snapshot)) c)) = [7]
    \<and> settled (step thermostat_device (Fetched (Inr heating_snapshot)) c) =
        [(2, Rejected lock_error),
         (1, Fulfilled (state (step thermostat_device (Fetched (Inr heating_snapshot)) c)))]"
  proof (intro conjI)
    have "fetchDevice_calls (world (step thermostat_device (Fetched (Inr heating_snapshot)) c)) =
        fetchDevice_calls (world c)"
      using f by blast
    then show "fetchDevice_calls
        (world (step thermostat_device (Fetched (Inr heating_snapshot)) c)) = [7]"
      by (simp add: c)
    have s: "settled (step thermostat_device (Fetched (Inr heating_snapshot)) c) =
        settled c @ map (\<lambda>x. (x, Fulfilled
          (state (step thermostat_device (Fetched (Inr heating_snapshot)) c))))
          (1 # map fst (queue c))"
      using f by blast
    show "settled (step thermostat_device (Fetched (Inr heating_snapshot)) c) =
        [(2, Rejected lock_error),
         (1, Fulfilled (state (step thermostat_device (Fetched (Inr heating_snapshot)) c)))]"
      using s by (simp add: c)
  qed
  define n where "n = run thermostat_device
      [Read 1, Tick 120, ConstructorFetched (Inr heating_snapshot)]
      (new_adapter thermostat_device (world_at 1700000000123))"
  have n0: "holder (new_adapter thermostat_device (world_at 1700000000123)) = None
    \<and> queue (new_adapter thermostat_device (world_at 1700000000123)) = []
    \<and> \<not> isValid (world (new_adapter thermostat_device (world_at 1700000000123)))
         (validUntil (state (new_adapter thermostat_device (world_at 1700000000123))))"
    by (simp add: new_adapter_def new_State_def isValid_def)
  have u: "fetchDevice_calls (fst (updateState_fetched ds (w, s))) = fetchDevice_calls w"
    for ds w s
    using updateState_fetched_frame [of ds w s] by simp
  have n: "holder n = Some 1" "fetchDevice_calls (world n) = [7, 7]"
    by (simp_all add: n_def new_adapter_def world_at_def new_State_def isValid_def
        currentEpoch_def log_debug_def thermostat_device_def Let_def timed_out_def
        elapse_def updateState_settled_def split_beta u)
  have rn: "run thermostat_device
      [Read 1, Tick 120, ConstructorFetched (Inr heating_snapshot),
       Fetched (Inr heating_snapshot)]
      (new_adapter thermostat_device (world_at 1700000000123)) =
      step thermostat_device (Fetched (Inr heating_snapshot)) n"
    by (simp add: n_def)
  have "fetchDevice_calls (world (step thermostat_device (Fetched (Inr heating_snapshot)) n)) =
      fetchDevice_calls (world n)"
    using step_Fetched_fulfilled [OF n(1), of thermostat_device heating_snapshot] by blast
  then have d: "fetchDevice_calls
      (world (step thermostat_device (Fetched (Inr heating_snapshot)) n)) = [7, 7]"
    by (simp add: n)
  show ?thesis
    unfolding r rn using a b n0 d by blast
qed

end
